theory Spec2Isabelle
  imports Complex_Main "HOL-Library.Log_Nat"
begin

section \<open>The PDF viewer page: data model\<close>

text \<open>
  The embedded program is the script of \<^verbatim>\<open>app/pages/pdf-viewer/[pdfId].vue\<close>.
  A string-valued field that may be missing is a \<open>string option\<close>: \<open>None\<close> is
  \<^verbatim>\<open>undefined\<close>/\<^verbatim>\<open>null\<close>, and the empty string is the only falsy string.
\<close>

subsection \<open>Numbers\<close>

text \<open>
  A JavaScript number is an IEEE 754 double: a finite value, an infinity or NaN. The two
  zeros are not told apart, as no operation of the script distinguishes them.
\<close>

datatype number = Fin real | PInf | NInf | NaN

text \<open>Rounding a real to the nearest integer, ties to the even one.\<close>

definition rne :: "real \<Rightarrow> int" where
  "rne z =
     (let f = \<lfloor>z\<rfloor>; d = z - of_int f
      in if d < 1 / 2 then f else if 1 / 2 < d then f + 1 else if even f then f else f + 1)"

text \<open>The binary exponent of a positive real: \<open>2 powi ilog2 x \<le> x < 2 powi (ilog2 x + 1)\<close>.\<close>

definition ilog2 :: "real \<Rightarrow> int" where
  "ilog2 x = (if 1 \<le> x then bitlen \<lfloor>x\<rfloor> - 1 else - bitlen (\<lceil>1 / x\<rceil> - 1))"

text \<open>
  The spacing of the doubles around \<open>x\<close>: 52 binary places below the exponent, the
  exponent being at least -1022 (below it, the doubles are subnormal).
\<close>

definition ulp :: "real \<Rightarrow> real" where
  "ulp x = 2 powi (max (ilog2 \<bar>x\<bar>) (- 1022) - 52)"

definition nearest :: "real \<Rightarrow> real" where
  "nearest x = (if x = 0 then 0 else of_int (rne (x / ulp x)) * ulp x)"

text \<open>
  The double that an exact result is rounded to (round to nearest, ties to even); a
  result that rounds to \<open>2 ^ 1024\<close> or beyond in magnitude overflows to an infinity.
\<close>

definition round64 :: "real \<Rightarrow> number" where
  "round64 x =
     (let y = nearest x
      in if 2 ^ 1024 \<le> y then PInf else if y \<le> - (2 ^ 1024) then NInf else Fin y)"

fun fneg :: "number \<Rightarrow> number" where
  "fneg (Fin a) = Fin (- a)"
| "fneg PInf = NInf"
| "fneg NInf = PInf"
| "fneg NaN = NaN"

text \<open>\<^verbatim>\<open>a * b\<close>\<close>

fun fmul :: "number \<Rightarrow> number \<Rightarrow> number" where
  "fmul (Fin a) (Fin b) = round64 (a * b)"
| "fmul (Fin a) PInf = (if a = 0 then NaN else if 0 < a then PInf else NInf)"
| "fmul (Fin a) NInf = (if a = 0 then NaN else if 0 < a then NInf else PInf)"
| "fmul PInf (Fin b) = (if b = 0 then NaN else if 0 < b then PInf else NInf)"
| "fmul NInf (Fin b) = (if b = 0 then NaN else if 0 < b then NInf else PInf)"
| "fmul PInf PInf = PInf"
| "fmul PInf NInf = NInf"
| "fmul NInf PInf = NInf"
| "fmul NInf NInf = PInf"
| "fmul NaN b = NaN"
| "fmul a NaN = NaN"

text \<open>\<^verbatim>\<open>a + b\<close>\<close>

fun fadd :: "number \<Rightarrow> number \<Rightarrow> number" where
  "fadd (Fin a) (Fin b) = round64 (a + b)"
| "fadd (Fin a) PInf = PInf"
| "fadd (Fin a) NInf = NInf"
| "fadd PInf (Fin b) = PInf"
| "fadd NInf (Fin b) = NInf"
| "fadd PInf PInf = PInf"
| "fadd PInf NInf = NaN"
| "fadd NInf PInf = NaN"
| "fadd NInf NInf = NInf"
| "fadd NaN b = NaN"
| "fadd a NaN = NaN"

text \<open>\<^verbatim>\<open>a - b\<close>\<close>

definition fsub :: "number \<Rightarrow> number \<Rightarrow> number" where
  "fsub a b = fadd a (fneg b)"

text \<open>\<^verbatim>\<open>a <= b\<close>: false whenever an operand is NaN.\<close>

fun fle :: "number \<Rightarrow> number \<Rightarrow> bool" where
  "fle (Fin a) (Fin b) = (a \<le> b)"
| "fle (Fin a) PInf = True"
| "fle (Fin a) NInf = False"
| "fle PInf (Fin b) = False"
| "fle NInf (Fin b) = True"
| "fle PInf PInf = True"
| "fle PInf NInf = False"
| "fle NInf PInf = True"
| "fle NInf NInf = True"
| "fle NaN b = False"
| "fle a NaN = False"

text \<open>\<^verbatim>\<open>a >= b\<close>\<close>

definition fge :: "number \<Rightarrow> number \<Rightarrow> bool" where
  "fge a b = fle b a"


subsection \<open>The component's data\<close>

text \<open>
  \<^verbatim>\<open>interface BoundingBox\<close>, extended by the field \<^verbatim>\<open>id\<close> that the metadata
  API may send in place of \<^verbatim>\<open>element_id\<close>.
\<close>

record BoundingBox =
  element_id :: "string option"
  box_id :: "string option"
  box_x :: number
  box_y :: number
  box_width :: number
  box_height :: number
  box_text :: string

text \<open>The viewport returned by the engine's \<^verbatim>\<open>page.getViewport({ scale })\<close>.\<close>

record Viewport =
  vp_scale :: number
  vp_width :: number
  vp_height :: number

text \<open>A page handle of the rasterization engine: the page's size at scale 1.\<close>

record PdfPage =
  page_width :: number
  page_height :: number

definition getViewport :: "PdfPage \<Rightarrow> number \<Rightarrow> Viewport" where
  "getViewport page s =
     \<lparr>vp_scale = s, vp_width = fmul (page_width page) s, vp_height = fmul (page_height page) s\<rparr>"

text \<open>
  The content of the canvas's 2D context: the document painted into it (named by its
  URL) and the rectangles stroked on top.
\<close>

record Raster =
  page_image :: "string option"
  strokes :: "(number \<times> number \<times> number \<times> number) list"

definition blank :: Raster where
  "blank = \<lparr>page_image = None, strokes = []\<rparr>"

text \<open>
  The element \<^verbatim>\<open>#pdf-canvas\<close>. \<open>context2d = None\<close> is a canvas whose
  \<^verbatim>\<open>getContext('2d')\<close> returns \<^verbatim>\<open>null\<close>; all raster content lives in the context.
\<close>

record Canvas =
  cv_width :: number
  cv_height :: number
  context2d :: "Raster option"
  click_listener :: bool

text \<open>
  What \<^verbatim>\<open>error.value\<close> can hold: an \<^verbatim>\<open>Error\<close> object thrown by the script (with its
  message), a \<^verbatim>\<open>TypeError\<close> raised by the runtime, or a plain string.
\<close>

datatype ErrorValue = JsError string | JsTypeError | ErrString string

text \<open>The calls the script makes on its collaborators, in the order it makes them.\<close>

datatype Call =
    UseFetch string
  | ClearRect
  | GetDocument string
  | GetPage nat
  | GetViewport number
  | SetCanvasHeight number
  | SetCanvasWidth number
  | RenderPage
  | StrokeRect "number \<times> number \<times> number \<times> number"
  | RemoveClickListener
  | AddClickListener

fun request_of :: "Call \<Rightarrow> string option" where
  "request_of (UseFetch u) = Some u"
| "request_of _ = None"

definition network_requests :: "Call list \<Rightarrow> string list" where
  "network_requests cs = List.map_filter request_of cs"

text \<open>
  The refs of the component (\<^verbatim>\<open>pdfId\<close>, \<^verbatim>\<open>boundingBoxes\<close>, \<^verbatim>\<open>pdfFileUrl\<close>,
  \<^verbatim>\<open>isLoading\<close>, \<^verbatim>\<open>error\<close>, \<^verbatim>\<open>pdfPageView\<close>), the canvas element found by
  \<^verbatim>\<open>document.getElementById('pdf-canvas')\<close> (\<open>None\<close> when there is none), and the
  calls made so far.
\<close>

record viewer =
  pdfId :: string
  boundingBoxes :: "BoundingBox list"
  pdfFileUrl :: "string option"
  isLoading :: bool
  error :: "ErrorValue option"
  pdfPageView :: "Viewport option"
  canvas :: "Canvas option"
  calls :: "Call list"

text \<open>The initial values of the refs, for the route's document identifier.\<close>

definition initial :: "string \<Rightarrow> Canvas option \<Rightarrow> viewer" where
  "initial ident cv =
     \<lparr>pdfId = ident, boundingBoxes = [], pdfFileUrl = None, isLoading = True,
      error = None, pdfPageView = None, canvas = cv, calls = []\<rparr>"

text \<open>
  The payload of the metadata API. \<open>md_boundingBoxes = None\<close> is a payload whose
  \<^verbatim>\<open>boundingBoxes\<close> field is absent or holds a value that is not an array: on either,
  \<^verbatim>\<open>metadataResponse.value.boundingBoxes.map(...)\<close> raises a \<^verbatim>\<open>TypeError\<close>.
\<close>

record Metadata =
  md_cloudStoragePath :: "string option"
  md_boundingBoxes :: "BoundingBox list option"

text \<open>
  The error ref of \<^verbatim>\<open>useFetch\<close>: its \<^verbatim>\<open>statusMessage\<close> and \<^verbatim>\<open>message\<close> (empty
  when missing) and what the error object itself prints as.
\<close>

record FetchFailure =
  statusMessage :: string
  failure_message :: string
  failure_string :: string

record FetchResponse =
  fr_data :: "Metadata option"
  fr_error :: "FetchFailure option"

datatype 'a Outcome = Resolved 'a | Rejected string

text \<open>
  Where a call of \<^verbatim>\<open>loadAndRenderPdf\<close> is suspended: at
  \<^verbatim>\<open>await loadingTask.promise\<close>, at \<^verbatim>\<open>await pdf.getPage(1)\<close> or at
  \<^verbatim>\<open>await page.render(...).promise\<close> (holding the \<^verbatim>\<open>url\<close>).
\<close>

datatype RenderPending =
    AwaitDocument string
  | AwaitPage string
  | AwaitRender string

text \<open>
  Where a call of \<^verbatim>\<open>fetchPdfData\<close> is suspended: at \<^verbatim>\<open>await useFetch(...)\<close>
  (holding the \<^verbatim>\<open>id\<close> it was started for), or at \<^verbatim>\<open>await loadAndRenderPdf(...)\<close>,
  the callee being suspended itself.
\<close>

datatype Pending =
    AwaitFetch string
  | AwaitLoadAndRender RenderPending

section \<open>Coordinate mapping and the click handler\<close>

text \<open>
  \<^verbatim>\<open>canvasX\<close>, \<^verbatim>\<open>canvasY\<close>, \<^verbatim>\<open>canvasWidth\<close>, \<^verbatim>\<open>canvasHeight\<close> of
  \<^verbatim>\<open>handleCanvasClick\<close> and \<^verbatim>\<open>drawBoundingBoxes\<close>.
\<close>

definition canvasRect :: "Viewport \<Rightarrow> BoundingBox \<Rightarrow> number \<times> number \<times> number \<times> number" where
  "canvasRect viewport box =
     (fmul (box_x box) (vp_scale viewport), fmul (box_y box) (vp_scale viewport),
      fmul (box_width box) (vp_scale viewport), fmul (box_height box) (vp_scale viewport))"

text \<open>The condition of the \<^verbatim>\<open>if\<close> in the loop of \<^verbatim>\<open>handleCanvasClick\<close>.\<close>

definition box_hit :: "Viewport \<Rightarrow> number \<Rightarrow> number \<Rightarrow> BoundingBox \<Rightarrow> bool" where
  "box_hit viewport x y box =
     (case canvasRect viewport box of (canvasX, canvasY, canvasWidth, canvasHeight) \<Rightarrow>
        fge x canvasX \<and> fle x (fadd canvasX canvasWidth) \<and>
        fge y canvasY \<and> fle y (fadd canvasY canvasHeight))"

text \<open>The \<^verbatim>\<open>for (const box of boundingBoxes.value)\<close> loop, left at the first hit.\<close>

fun click_loop :: "Viewport \<Rightarrow> number \<Rightarrow> number \<Rightarrow> BoundingBox list \<Rightarrow> BoundingBox option" where
  "click_loop viewport x y [] = None"
| "click_loop viewport x y (box # rest) =
     (if box_hit viewport x y box then Some box else click_loop viewport x y rest)"

text \<open>
  A click: the event's client coordinates and the canvas's bounding client rectangle.
\<close>

record MouseEvent =
  clientX :: number
  clientY :: number
  rect_left :: number
  rect_top :: number

text \<open>
  \<^verbatim>\<open>handleCanvasClick\<close>: the box the click resolves to, whose input field the handler
  then looks up and focuses.
\<close>

definition handleCanvasClick :: "viewer \<Rightarrow> MouseEvent \<Rightarrow> BoundingBox option" where
  "handleCanvasClick st event =
     (let x = fsub (clientX event) (rect_left event);
          y = fsub (clientY event) (rect_top event)
      in case pdfPageView st of
           None \<Rightarrow> None
         | Some viewport \<Rightarrow> click_loop viewport x y (boundingBoxes st))"

text \<open>The identifier \<^verbatim>\<open>`input-${box.element_id}`\<close> of the field to focus.\<close>

definition focus_target :: "BoundingBox \<Rightarrow> string" where
  "focus_target box =
     ''input-'' @ (case element_id box of None \<Rightarrow> ''undefined'' | Some s \<Rightarrow> s)"


section \<open>Loading and rendering\<close>

definition truthy :: "string option \<Rightarrow> bool" where
  "truthy v = (case v of None \<Rightarrow> False | Some s \<Rightarrow> s \<noteq> [])"

text \<open>
  The callback of \<^verbatim>\<open>boundingBoxes.map\<close>:
  \<^verbatim>\<open>({ ...box, element_id: box.element_id || box.id })\<close>.
\<close>

definition normalize_box :: "BoundingBox \<Rightarrow> BoundingBox" where
  "normalize_box box =
     box\<lparr>element_id := (if truthy (element_id box) then element_id box else box_id box)\<rparr>"

text \<open>
  \<^verbatim>\<open>if (canvas) { context = canvas.getContext('2d'); context?.clearRect(0, 0, canvas.width, canvas.height) }\<close>
\<close>

definition clear_canvas :: "viewer \<Rightarrow> viewer" where
  "clear_canvas st =
     (case canvas st of
        None \<Rightarrow> st
      | Some c \<Rightarrow>
          (case context2d c of
             None \<Rightarrow> st
           | Some r \<Rightarrow> st\<lparr>canvas := Some (c\<lparr>context2d := Some blank\<rparr>),
                          calls := calls st @ [ClearRect]\<rparr>))"

text \<open>The \<^verbatim>\<open>catch\<close> and \<^verbatim>\<open>finally\<close> blocks of \<^verbatim>\<open>fetchPdfData\<close>.\<close>

definition catch_block :: "ErrorValue \<Rightarrow> viewer \<Rightarrow> viewer" where
  "catch_block e st = clear_canvas (st\<lparr>error := Some e, boundingBoxes := [], pdfFileUrl := None\<rparr>)"

definition finally_block :: "viewer \<Rightarrow> viewer" where
  "finally_block st = st\<lparr>isLoading := False\<rparr>"

definition throw :: "ErrorValue \<Rightarrow> viewer \<Rightarrow> viewer \<times> Pending option" where
  "throw e st = (finally_block (catch_block e st), None)"

definition placeholder :: string where
  "placeholder = ''REPLACE_WITH_YOUR_ACTUAL_API_BASE_URL''"

definition config_message :: string where
  "config_message =
     ''API base URL is not configured in nuxt.config.ts. Please replace the placeholder.''"

text \<open>
  \<^verbatim>\<open>fetchPdfData(id)\<close> up to \<^verbatim>\<open>await useFetch(metadataUrl)\<close>. The first argument is
  \<^verbatim>\<open>config.public.apiBaseUrl\<close>.
\<close>

definition fetchPdfData :: "string option \<Rightarrow> string \<Rightarrow> viewer \<Rightarrow> viewer \<times> Pending option" where
  "fetchPdfData apiBaseUrl ident st =
     (let st1 = st\<lparr>isLoading := True, error := None\<rparr>
      in case apiBaseUrl of
           None \<Rightarrow> throw (JsError config_message) st1
         | Some base \<Rightarrow>
             if base = placeholder \<or> base = [] then throw (JsError config_message) st1
             else (st1\<lparr>calls := calls st1 @ [UseFetch (base @ ''/documents/'' @ ident)]\<rparr>,
                   Some (AwaitFetch ident)))"

text \<open>
  \<^verbatim>\<open>loadAndRenderPdf(url)\<close> up to \<^verbatim>\<open>await loadingTask.promise\<close>.
\<close>

definition loadAndRenderPdf :: "string \<Rightarrow> viewer \<Rightarrow> viewer \<times> RenderPending option" where
  "loadAndRenderPdf url st =
     (case canvas st of
        None \<Rightarrow> (st\<lparr>error := Some (ErrString ''Canvas element not found.'')\<rparr>, None)
      | Some c \<Rightarrow>
          (case context2d c of
             None \<Rightarrow> (st\<lparr>error := Some (ErrString ''Failed to get canvas context'')\<rparr>, None)
           | Some r \<Rightarrow>
               (st\<lparr>canvas := Some (c\<lparr>context2d := Some blank\<rparr>),
                   calls := calls st @ [ClearRect, GetDocument url]\<rparr>,
                Some (AwaitDocument url))))"

text \<open>
  \<^verbatim>\<open>await loadAndRenderPdf(...)\<close> inside \<^verbatim>\<open>fetchPdfData\<close>: once the callee has
  returned, the caller's \<^verbatim>\<open>finally\<close> block runs.
\<close>

definition returning :: "viewer \<times> RenderPending option \<Rightarrow> viewer \<times> Pending option" where
  "returning p =
     (case p of
        (st, None) \<Rightarrow> (finally_block st, None)
      | (st, Some k) \<Rightarrow> (st, Some (AwaitLoadAndRender k)))"

text \<open>The \<^verbatim>\<open>catch\<close> block of \<^verbatim>\<open>loadAndRenderPdf\<close>; it does not rethrow.\<close>

definition render_failed :: "string \<Rightarrow> viewer \<Rightarrow> viewer \<times> RenderPending option" where
  "render_failed reason st =
     (st\<lparr>error := Some (ErrString (''Failed to load PDF: '' @ reason))\<rparr>, None)"

definition failure_text :: "FetchFailure \<Rightarrow> string" where
  "failure_text fe =
     (if statusMessage fe \<noteq> [] then statusMessage fe
      else if failure_message fe \<noteq> [] then failure_message fe
      else failure_string fe)"

text \<open>
  \<^verbatim>\<open>fetchPdfData\<close> from the resolution of \<^verbatim>\<open>useFetch\<close> on, up to the first
  \<^verbatim>\<open>await\<close> inside \<^verbatim>\<open>loadAndRenderPdf\<close>.
\<close>

definition after_fetch :: "string \<Rightarrow> FetchResponse \<Rightarrow> viewer \<Rightarrow> viewer \<times> Pending option" where
  "after_fetch ident response st =
     (case fr_error response of
        Some fe \<Rightarrow> throw (JsError (''Error fetching metadata: '' @ failure_text fe)) st
      | None \<Rightarrow>
          (case fr_data response of
             None \<Rightarrow> throw (JsError ''No data returned from metadata API.'') st
           | Some md \<Rightarrow>
               (let st1 = st\<lparr>pdfFileUrl := md_cloudStoragePath md\<rparr>
                in case md_boundingBoxes md of
                     None \<Rightarrow> throw JsTypeError st1
                   | Some raw \<Rightarrow>
                       (let st2 = st1\<lparr>boundingBoxes := map normalize_box raw\<rparr>
                        in case pdfFileUrl st2 of
                             None \<Rightarrow>
                               throw (JsError ''PDF cloud storage path not provided in API response.'') st2
                           | Some url \<Rightarrow>
                               if url = []
                               then throw (JsError ''PDF cloud storage path not provided in API response.'') st2
                               else returning (loadAndRenderPdf url st2)))))"

text \<open>\<^verbatim>\<open>loadAndRenderPdf\<close> from the resolution of \<^verbatim>\<open>loadingTask.promise\<close> on.\<close>

definition after_document :: "string \<Rightarrow> unit Outcome \<Rightarrow> viewer \<Rightarrow> viewer \<times> RenderPending option" where
  "after_document url outcome st =
     (case outcome of
        Rejected reason \<Rightarrow> render_failed reason st
      | Resolved pdf \<Rightarrow> (st\<lparr>calls := calls st @ [GetPage 1]\<rparr>, Some (AwaitPage url)))"

text \<open>
  From the resolution of \<^verbatim>\<open>pdf.getPage(1)\<close> on: the viewport at scale 1.5 is stored,
  the canvas is sized (height first) and \<^verbatim>\<open>page.render\<close> is started.
\<close>

definition after_page :: "string \<Rightarrow> PdfPage Outcome \<Rightarrow> viewer \<Rightarrow> viewer \<times> RenderPending option" where
  "after_page url outcome st =
     (case outcome of
        Rejected reason \<Rightarrow> render_failed reason st
      | Resolved page \<Rightarrow>
          (let viewport = getViewport page (Fin (3 / 2))
           in (st\<lparr>pdfPageView := Some viewport,
                  canvas := map_option
                     (\<lambda>c. c\<lparr>cv_height := vp_height viewport, cv_width := vp_width viewport\<rparr>)
                     (canvas st),
                  calls := calls st @ [GetViewport (Fin (3 / 2)), SetCanvasHeight (vp_height viewport),
                                       SetCanvasWidth (vp_width viewport), RenderPage]\<rparr>,
               Some (AwaitRender url))))"

text \<open>The page painted into the context that \<^verbatim>\<open>loadAndRenderPdf\<close> holds.\<close>

definition paint :: "string \<Rightarrow> viewer \<Rightarrow> viewer" where
  "paint url st =
     st\<lparr>canvas := map_option
          (\<lambda>c. c\<lparr>context2d := map_option (\<lambda>r. r\<lparr>page_image := Some url\<rparr>) (context2d c)\<rparr>)
          (canvas st)\<rparr>"

text \<open>\<^verbatim>\<open>drawBoundingBoxes()\<close>\<close>

definition drawBoundingBoxes :: "viewer \<Rightarrow> viewer" where
  "drawBoundingBoxes st =
     (case canvas st of
        None \<Rightarrow> st
      | Some c \<Rightarrow>
          (case context2d c of
             None \<Rightarrow> st
           | Some r \<Rightarrow>
               (case pdfPageView st of
                  None \<Rightarrow> st
                | Some viewport \<Rightarrow>
                    (let rects = map (canvasRect viewport) (boundingBoxes st)
                     in st\<lparr>canvas := Some (c\<lparr>context2d := Some (r\<lparr>strokes := strokes r @ rects\<rparr>)\<rparr>),
                           calls := calls st @ map StrokeRect rects\<rparr>))))"

text \<open>
  \<^verbatim>\<open>canvas.removeEventListener('click', handleCanvasClick);\<close>
  \<^verbatim>\<open>canvas.addEventListener('click', handleCanvasClick);\<close>
\<close>

definition rebind_listener :: "viewer \<Rightarrow> viewer" where
  "rebind_listener st =
     st\<lparr>canvas := map_option (\<lambda>c. c\<lparr>click_listener := True\<rparr>) (canvas st),
        calls := calls st @ [RemoveClickListener, AddClickListener]\<rparr>"

text \<open>\<^verbatim>\<open>loadAndRenderPdf\<close> from the resolution of \<^verbatim>\<open>page.render(...).promise\<close> on.\<close>

definition after_render :: "string \<Rightarrow> unit Outcome \<Rightarrow> viewer \<Rightarrow> viewer \<times> RenderPending option" where
  "after_render url outcome st =
     (case outcome of
        Rejected reason \<Rightarrow> render_failed reason st
      | Resolved done \<Rightarrow> (rebind_listener (drawBoundingBoxes (paint url st)), None))"

section \<open>Mounting and identifier changes\<close>

text \<open>\<^verbatim>\<open>onMounted\<close>\<close>

definition onMounted :: "string option \<Rightarrow> viewer \<Rightarrow> viewer \<times> Pending option" where
  "onMounted apiBaseUrl st =
     (if pdfId st \<noteq> [] then fetchPdfData apiBaseUrl (pdfId st) st else (st, None))"

text \<open>A value of \<^verbatim>\<open>route.params.pdfId\<close>.\<close>

datatype RouteParam = ParamUndefined | ParamString string | ParamArray "string list"

text \<open>
  The body of the watcher's \<^verbatim>\<open>if\<close>, up to the call of \<^verbatim>\<open>fetchPdfData(newId)\<close>.
\<close>

definition reset_for :: "string \<Rightarrow> viewer \<Rightarrow> viewer" where
  "reset_for newId st =
     (clear_canvas (st\<lparr>pdfId := newId, boundingBoxes := [], pdfFileUrl := None\<rparr>))
       \<lparr>pdfPageView := None, error := None, isLoading := True\<rparr>"

text \<open>The callback of \<^verbatim>\<open>watch(() => route.params.pdfId, ...)\<close>.\<close>

definition watch_pdfId :: "string option \<Rightarrow> RouteParam \<Rightarrow> viewer \<Rightarrow> viewer \<times> Pending option" where
  "watch_pdfId apiBaseUrl newId st =
     (case newId of
        ParamString s \<Rightarrow>
          if s \<noteq> [] \<and> s \<noteq> pdfId st then fetchPdfData apiBaseUrl s (reset_for s st)
          else (st, None)
      | _ \<Rightarrow> (st, None))"

section \<open>Running a load cycle\<close>

text \<open>
  What the collaborators answer during one load cycle: the metadata API and the three
  promises of the rasterization engine.
\<close>

record Environment =
  env_fetch :: FetchResponse
  env_document :: "unit Outcome"
  env_page :: "PdfPage Outcome"
  env_render :: "unit Outcome"

text \<open>
  A suspended call of \<^verbatim>\<open>loadAndRenderPdf\<close> resumes when the promise it awaits settles.
\<close>

fun resume_render :: "Environment \<Rightarrow> RenderPending \<Rightarrow> viewer \<Rightarrow> viewer \<times> RenderPending option" where
  "resume_render env (AwaitDocument url) st = after_document url (env_document env) st"
| "resume_render env (AwaitPage url) st = after_page url (env_page env) st"
| "resume_render env (AwaitRender url) st = after_render url (env_render env) st"

text \<open>
  A suspended call of \<^verbatim>\<open>fetchPdfData\<close> resumes when \<^verbatim>\<open>useFetch\<close> settles, or when
  the call of \<^verbatim>\<open>loadAndRenderPdf\<close> it awaits resumes; when that call has returned,
  the \<^verbatim>\<open>finally\<close> block runs.
\<close>

fun resume :: "Environment \<Rightarrow> Pending \<Rightarrow> viewer \<Rightarrow> viewer \<times> Pending option" where
  "resume env (AwaitFetch ident) st = after_fetch ident (env_fetch env) st"
| "resume env (AwaitLoadAndRender k) st = returning (resume_render env k st)"

text \<open>Resume a call, nothing else running in between, at most \<open>n\<close> times.\<close>

fun run :: "nat \<Rightarrow> Environment \<Rightarrow> viewer \<times> Pending option \<Rightarrow> viewer \<times> Pending option" where
  "run 0 env p = p"
| "run (Suc n) env (st, None) = (st, None)"
| "run (Suc n) env (st, Some k) = run n env (resume env k st)"

fun run_render :: "nat \<Rightarrow> Environment \<Rightarrow> viewer \<times> RenderPending option \<Rightarrow> viewer \<times> RenderPending option" where
  "run_render 0 env p = p"
| "run_render (Suc n) env (st, None) = (st, None)"
| "run_render (Suc n) env (st, Some k) = run_render n env (resume_render env k st)"

text \<open>One whole load cycle: \<^verbatim>\<open>fetchPdfData(id)\<close> with its four awaits.\<close>

definition load_cycle :: "Environment \<Rightarrow> string option \<Rightarrow> string \<Rightarrow> viewer \<Rightarrow> viewer \<times> Pending option" where
  "load_cycle env apiBaseUrl ident st = run 4 env (fetchPdfData apiBaseUrl ident st)"

text \<open>
  One whole call of \<^verbatim>\<open>loadAndRenderPdf(url)\<close> with its three awaits, and nothing of its
  caller.
\<close>

definition render_page :: "Environment \<Rightarrow> string \<Rightarrow> viewer \<Rightarrow> viewer \<times> RenderPending option" where
  "render_page env url st = run_render 3 env (loadAndRenderPdf url st)"

text \<open>The number of awaits a suspended cycle still has before it.\<close>

fun awaits_left :: "Pending \<Rightarrow> nat" where
  "awaits_left (AwaitFetch ident) = 4"
| "awaits_left (AwaitLoadAndRender (AwaitDocument url)) = 3"
| "awaits_left (AwaitLoadAndRender (AwaitPage url)) = 2"
| "awaits_left (AwaitLoadAndRender (AwaitRender url)) = 1"

text \<open>The raster content of the canvas, if there is a canvas with a 2D context.\<close>

definition raster :: "viewer \<Rightarrow> Raster option" where
  "raster st = (case canvas st of None \<Rightarrow> None | Some c \<Rightarrow> context2d c)"

text \<open>Whether the engine answers all three promises of a render with success.\<close>

definition engine_succeeds :: "Environment \<Rightarrow> bool" where
  "engine_succeeds env =
     (case (env_document env, env_page env, env_render env) of
        (Resolved d, Resolved p, Resolved r) \<Rightarrow> True
      | _ \<Rightarrow> False)"

section \<open>Concrete documents and runs\<close>

definition box1 :: BoundingBox where
  "box1 = \<lparr>element_id = Some ''box1'', box_id = None, box_x = Fin 50, box_y = Fin 100,
            box_width = Fin 150, box_height = Fin 30, box_text = ''T1''\<rparr>"

text \<open>A box that overlaps \<open>box1\<close>.\<close>

definition box2 :: BoundingBox where
  "box2 = \<lparr>element_id = Some ''box2'', box_id = None, box_x = Fin 70, box_y = Fin 110,
            box_width = Fin 200, box_height = Fin 40, box_text = ''T2''\<rparr>"

text \<open>A record of an API that sends \<^verbatim>\<open>id\<close> only.\<close>

definition legacy_box :: BoundingBox where
  "legacy_box = \<lparr>element_id = None, box_id = Some ''b7'', box_x = Fin 10, box_y = Fin 20,
                  box_width = Fin 30, box_height = Fin 40, box_text = ''T7''\<rparr>"

text \<open>A record that has both fields, \<^verbatim>\<open>element_id\<close> being the empty string.\<close>

definition empty_id_box :: BoundingBox where
  "empty_id_box = \<lparr>element_id = Some [], box_id = Some ''b7'', box_x = Fin 10, box_y = Fin 20,
                    box_width = Fin 30, box_height = Fin 40, box_text = ''T7''\<rparr>"

definition canvas0 :: Canvas where
  "canvas0 = \<lparr>cv_width = Fin 300, cv_height = Fin 150,
               context2d = Some \<lparr>page_image = Some ''old.pdf'', strokes = [(Fin 1, Fin 2, Fin 3, Fin 4)]\<rparr>,
               click_listener = False\<rparr>"

definition api_base :: "string option" where
  "api_base = Some ''https://api.example.com''"

definition page0 :: PdfPage where
  "page0 = \<lparr>page_width = Fin 400, page_height = Fin 600\<rparr>"

definition metadata1 :: Metadata where
  "metadata1 = \<lparr>md_cloudStoragePath = Some ''https://x/doc1.pdf'', md_boundingBoxes = Some [box1]\<rparr>"

definition metadata2 :: Metadata where
  "metadata2 = \<lparr>md_cloudStoragePath = Some ''https://x/doc2.pdf'', md_boundingBoxes = Some [box2]\<rparr>"

definition no_boxes :: Metadata where
  "no_boxes = \<lparr>md_cloudStoragePath = Some ''https://x/doc1.pdf'', md_boundingBoxes = None\<rparr>"

definition response :: "Metadata \<Rightarrow> FetchResponse" where
  "response md = \<lparr>fr_data = Some md, fr_error = None\<rparr>"

definition env_ok :: "Metadata \<Rightarrow> Environment" where
  "env_ok md = \<lparr>env_fetch = response md, env_document = Resolved (),
                env_page = Resolved page0, env_render = Resolved ()\<rparr>"

text \<open>The metadata arrives and the page is found, but painting it fails.\<close>

definition env_paint_fails :: Environment where
  "env_paint_fails = \<lparr>env_fetch = response metadata1, env_document = Resolved (),
                       env_page = Resolved page0, env_render = Rejected ''boom''\<rparr>"

definition mounted_doc1 :: viewer where
  "mounted_doc1 = initial ''doc1'' (Some canvas0)"

text \<open>The page after \<^verbatim>\<open>doc1\<close> has been loaded and rendered.\<close>

definition ready_doc1 :: viewer where
  "ready_doc1 = fst (load_cycle (env_ok metadata1) api_base ''doc1'' mounted_doc1)"

text \<open>
  The identifier changes to \<^verbatim>\<open>doc2\<close> while the metadata of \<^verbatim>\<open>doc1\<close> is still being
  fetched; the cycle of \<^verbatim>\<open>doc2\<close> runs to its end; then the fetch of \<^verbatim>\<open>doc1\<close> resolves
  and its cycle runs to its end.
\<close>

definition doc1_pending :: "viewer \<times> Pending option" where
  "doc1_pending = onMounted api_base mounted_doc1"

definition doc2_done :: "viewer \<times> Pending option" where
  "doc2_done = run 4 (env_ok metadata2) (watch_pdfId api_base (ParamString ''doc2'') (fst doc1_pending))"

definition late_doc1 :: "viewer \<times> Pending option" where
  "late_doc1 = run 4 (env_ok metadata1) (fst doc2_done, snd doc1_pending)"

text \<open>A box that contains no point of \<open>box1\<close> or \<open>box2\<close>.\<close>

definition box0 :: BoundingBox where
  "box0 = \<lparr>element_id = Some ''box0'', box_id = None, box_x = Fin 10, box_y = Fin 20,
            box_width = Fin 30, box_height = Fin 40, box_text = ''T0''\<rparr>"

text \<open>
  A document with \<open>box0\<close> and the two overlapping boxes, loaded and rendered; a click
  on a point of both \<open>box1\<close> and \<open>box2\<close>, and a click on a point of no box.
\<close>

definition metadata12 :: Metadata where
  "metadata12 = \<lparr>md_cloudStoragePath = Some ''https://x/doc1.pdf'',
                  md_boundingBoxes = Some [box0, box1, box2]\<rparr>"

definition ready_both :: viewer where
  "ready_both = fst (load_cycle (env_ok metadata12) api_base ''doc1'' mounted_doc1)"

definition click0 :: MouseEvent where
  "click0 = \<lparr>clientX = Fin 120, clientY = Fin 180, rect_left = Fin 10, rect_top = Fin 10\<rparr>"

definition click_miss :: MouseEvent where
  "click_miss = \<lparr>clientX = Fin 15, clientY = Fin 15, rect_left = Fin 10, rect_top = Fin 10\<rparr>"


definition viewport0 :: Viewport where
  "viewport0 = \<lparr>vp_scale = Fin (3 / 2), vp_width = Fin 600, vp_height = Fin 900\<rparr>"

text \<open>
  A cycle is settled within \<open>n\<close> awaits: it has finished with the loading flag off, or
  it has at most \<open>n\<close> awaits before it.
\<close>

definition settled :: "nat \<Rightarrow> viewer \<times> Pending option \<Rightarrow> bool" where
  "settled n p = (case snd p of None \<Rightarrow> \<not> isLoading (fst p) | Some k \<Rightarrow> awaits_left k \<le> n)"

section \<open>Basic facts\<close>

subsection \<open>Rounding to the nearest double\<close>

lemma rne_of_int [simp]: "rne (of_int n) = n"
  by (simp add: rne_def)



lemma rne_minus: "rne (- z) = - rne z"
proof (cases "z = of_int \<lfloor>z\<rfloor>")
  case True
  then obtain n where "z = of_int n" ..
  then have "- z = of_int (- n)" by simp
  then show ?thesis using \<open>z = of_int n\<close> by (metis rne_of_int)
next
  case False
  then have fl: "\<lfloor>- z\<rfloor> = - \<lfloor>z\<rfloor> - 1"
    by (metis ceiling_altdef ceiling_def diff_minus_eq_add minus_diff_eq of_int_floor_cancel uminus_add_conv_diff add_diff_cancel)
  show ?thesis
    unfolding rne_def Let_def fl by (auto simp: algebra_simps)
qed

lemma two_powi_less_D: "(2::real) powi a < 2 powi b \<Longrightarrow> a < b"
  using power_int_increasing [of b a "2::real"] by (cases "a < b") auto

lemma ilog2_bounds:
  assumes "0 < x"
  shows "2 powi (ilog2 x) \<le> x" and "x < 2 powi (ilog2 x + 1)"
proof -
  have "2 powi (ilog2 x) \<le> x \<and> x < 2 powi (ilog2 x + 1)"
  proof (cases "1 \<le> x")
    case True
    define n where "n = \<lfloor>x\<rfloor>"
    define k where "k = nat (bitlen n - 1)"
    have n: "0 < n" using True by (simp add: n_def)
    have b: "1 \<le> bitlen n" using n bitlen_eq_zero_iff [of n] bitlen_nonneg [of n] by linarith
    then have kk: "nat (bitlen n) = Suc k" "int k = bitlen n - 1" by (simp_all add: k_def)
    from bitlen_bounds [OF n] have lo: "2 ^ k \<le> n" and hi: "n < 2 ^ Suc k"
      by (simp_all add: kk k_def)
    have e: "ilog2 x = int k" using True by (simp add: ilog2_def n_def kk)
    have "real_of_int (2 ^ k) \<le> real_of_int n" using lo by linarith
    also have "\<dots> \<le> x" by (simp add: n_def)
    finally have 1: "2 powi (ilog2 x) \<le> x" by (simp add: e power_int_def)
    have "n + 1 \<le> 2 ^ Suc k" using hi by linarith
    then have "real_of_int (n + 1) \<le> real_of_int (2 ^ Suc k)" by linarith
    moreover have "x < real_of_int (n + 1)" by (simp add: n_def)
    ultimately have "x < 2 ^ Suc k" by simp
    moreover have "ilog2 x + 1 = int (Suc k)" by (simp add: e)
    ultimately have 2: "x < 2 powi (ilog2 x + 1)"
      by (simp only: power_int_of_nat)
    from 1 2 show ?thesis ..
  next
    case False
    define y where "y = 1 / x"
    define m where "m = \<lceil>y\<rceil> - 1"
    define k where "k = nat (bitlen m)"
    have y1: "1 < y" using False assms by (simp add: y_def)
    have m1: "0 < m" using y1 by (simp add: m_def)
    have my: "real_of_int m < y" "y \<le> real_of_int m + 1"
      unfolding m_def by linarith+
    have b: "1 \<le> bitlen m" using m1 bitlen_eq_zero_iff [of m] bitlen_nonneg [of m] by linarith
    define j where "j = nat (bitlen m - 1)"
    have j: "k = Suc j" "nat (bitlen m - 1) = j" "bitlen m = int k"
      using b by (simp_all add: k_def j_def)
    have nk: "nat (bitlen m) = k" by (simp add: k_def)
    from bitlen_bounds [OF m1] have lo: "2 ^ j \<le> m" and hi: "m < 2 ^ k"
      unfolding j(2) nk by simp_all
    have "ilog2 x = - bitlen m" using False by (simp add: ilog2_def y_def m_def)
    then have e: "ilog2 x = - int k" by (simp only: j(3))
    have "m + 1 \<le> 2 ^ k" using hi by linarith
    then have "real_of_int m + 1 \<le> (2::real) ^ k"
      using of_int_le_iff [of "m + 1" "2 ^ k", where ?'a = real] by simp
    with my have yk: "y \<le> 2 ^ k" by linarith
    have "(2::real) ^ j \<le> real_of_int m"
      using lo of_int_le_iff [of "2 ^ j" m, where ?'a = real] by simp
    with my have yj: "2 ^ j < y" by linarith
    have xy: "1 / y = x" by (simp add: y_def)
    have "(2::real) powi (- int k) = 1 / 2 ^ k" by (simp add: power_int_minus field_simps)
    also have "\<dots> \<le> 1 / y" using yk y1 by (simp add: frac_le)
    finally have 1: "2 powi (ilog2 x) \<le> x" unfolding e xy .
    have e1: "ilog2 x + 1 = - int j" by (simp add: e j)
    have "1 / y < 1 / 2 ^ j" using yj by (simp add: frac_less2)
    also have "\<dots> = (2::real) powi (- int j)" by (simp add: power_int_minus field_simps)
    finally have 2: "x < 2 powi (ilog2 x + 1)" unfolding e1 xy .
    from 1 2 show ?thesis ..
  qed
  then show "2 powi (ilog2 x) \<le> x" and "x < 2 powi (ilog2 x + 1)" by simp_all
qed

lemma ilog2_eq:
  assumes "0 < x" "2 powi e \<le> x" "x < 2 powi (e + 1)"
  shows "ilog2 x = e"
proof -
  from ilog2_bounds [OF assms(1)] assms(2,3)
  have "(2::real) powi (ilog2 x) < 2 powi (e + 1)" "(2::real) powi e < 2 powi (ilog2 x + 1)"
    by linarith+
  then have "ilog2 x < e + 1" "e < ilog2 x + 1"
    by (auto dest: two_powi_less_D)
  then show ?thesis by simp
qed


lemma ulp_pos [simp]: "0 < ulp x"
  by (simp add: ulp_def)

lemma ulp_nonneg [simp]: "0 \<le> ulp x"
  by (simp add: ulp_def)

lemma ulp_neq0 [simp]: "ulp x \<noteq> 0"
  by (simp add: ulp_def)

lemma div_ulp_eq: "x = c * ulp x \<Longrightarrow> x / ulp x = c"
  using nonzero_divide_eq_eq [of "ulp x" x c] by simp

lemma ulp_minus [simp]: "ulp (- x) = ulp x"
  by (simp add: ulp_def)

lemma ulp_abs [simp]: "ulp \<bar>x\<bar> = ulp x"
  by (simp add: ulp_def)

lemma nearest_minus: "nearest (- x) = - nearest x"
  by (simp add: nearest_def rne_minus)


lemma powi_split: "(2::real) powi (a + b) = 2 powi a * 2 powi b"
  by (simp add: power_int_add)





lemma nearest_zero [simp]: "nearest 0 = 0"
  by (simp add: nearest_def)


text \<open>Values with at most 53 significant bits and exponent in range are not changed.\<close>

lemma nearest_exact_pos:
  assumes x: "x = real_of_int m * 2 powi k" and m: "0 < m" "m \<le> 2 ^ 53" and k: "- 1074 \<le> k"
  shows "nearest x = x"
proof -
  have xpos: "0 < x" using m by (simp add: x)
  have ax: "\<bar>x\<bar> = x" using xpos by simp
  let ?E = "max (ilog2 x) (- 1022)"
  have u: "ulp x = 2 powi (?E - 52)" by (simp add: ulp_def ax)
  have "\<exists>n. x / ulp x = real_of_int n"
  proof (cases "?E - 52 \<le> k")
    case True
    then obtain d where d: "k = (?E - 52) + int d" by (metis zle_iff_zadd)
    have "2 powi k = 2 powi (?E - 52) * (2::real) powi (int d)"
      by (subst d) (rule powi_split)
    then have pk: "2 powi k = 2 ^ d * ulp x" by (simp add: u mult.commute)
    have "x = real_of_int m * (2 ^ d * ulp x)" unfolding pk [symmetric] by (rule x)
    then have "x = real_of_int (m * 2 ^ d) * ulp x" by (simp add: mult.assoc)
    then have "x / ulp x = real_of_int (m * 2 ^ d)" by (rule div_ulp_eq)
    then show ?thesis ..
  next
    case False
    then have E: "?E = ilog2 x" "k + 53 \<le> ilog2 x" using k by auto
    have "2 powi (k + 53) \<le> (2::real) powi (ilog2 x)"
      using E(2) by (rule power_int_increasing) simp
    also have "\<dots> \<le> x" by (rule ilog2_bounds [OF xpos])
    finally have "2 powi 53 * 2 powi k \<le> real_of_int m * (2::real) powi k"
      by (simp add: x powi_split [of k 53] mult.commute)
    then have "(2::real) ^ 53 \<le> real_of_int m" by simp
    then have "2 ^ 53 \<le> m"
      using of_int_le_iff [of "2 ^ 53" m, where ?'a = real] by simp
    with m have m53: "m = 2 ^ 53" by simp
    then have "x = 2 powi (k + 53)" by (simp add: x powi_split [of k 53] mult.commute)
    then have il: "ilog2 x = k + 53"
      using ilog2_eq [of x "k + 53"] xpos
      by (simp add: power_int_strict_increasing)
    have "?E - 52 = k + 1" using E(1) il by simp
    then have ux: "ulp x = 2 powi (k + 1)" unfolding u by (rule arg_cong)
    have "x = 2 powi (52 + (k + 1))"
      unfolding \<open>x = 2 powi (k + 53)\<close>
      by (rule arg_cong [where f = "power_int 2"]) simp
    also have "\<dots> = 2 powi 52 * 2 powi (k + 1)" by (rule powi_split)
    also have "\<dots> = real_of_int (2 ^ 52) * ulp x" unfolding ux by simp
    finally have "x / ulp x = real_of_int (2 ^ 52)" by (rule div_ulp_eq)
    then show ?thesis ..
  qed
  then obtain n where n: "x / ulp x = real_of_int n" ..
  then have "rne (x / ulp x) = n" by simp
  then have "nearest x = real_of_int n * ulp x" using xpos by (simp add: nearest_def)
  also have "\<dots> = x" using n by (simp add: field_simps)
  finally show ?thesis .
qed

lemma nearest_exact:
  assumes "x = real_of_int m * 2 powi k" "\<bar>m\<bar> \<le> 2 ^ 53" "- 1074 \<le> k"
  shows "nearest x = x"
proof -
  consider "m = 0" | "0 < m" | "m < 0" by linarith
  then show ?thesis
  proof cases
    case 1
    then show ?thesis using assms by simp
  next
    case 2
    then show ?thesis using assms nearest_exact_pos [of x m k] by simp
  next
    case 3
    then have "nearest (- x) = - x"
      using assms nearest_exact_pos [of "- x" "- m" k] by simp
    then show ?thesis by (simp add: nearest_minus)
  qed
qed



subsection \<open>Rounded results\<close>


lemma round64_not_NaN [simp]: "round64 x \<noteq> NaN"
  by (simp add: round64_def Let_def)

lemma round64_Fin_iff: "round64 x = Fin y \<longleftrightarrow> nearest x = y \<and> - (2 ^ 1024) < y \<and> y < 2 ^ 1024"
  by (auto simp: round64_def Let_def)


lemma round64_exact:
  assumes "x = real_of_int m * 2 powi k" "\<bar>m\<bar> \<le> 2 ^ 53" "- 1074 \<le> k"
    and "- (2 ^ 1024) < x" "x < 2 ^ 1024"
  shows "round64 x = Fin x"
  using nearest_exact [OF assms(1-3)] assms(4,5) by (simp add: round64_Fin_iff)


text \<open>Integers and halves of integers up to \<open>2 ^ 53\<close> in magnitude are doubles.\<close>

lemma round64_of_int:
  assumes "\<bar>n\<bar> \<le> 2 ^ 53"
  shows "round64 (real_of_int n) = Fin (real_of_int n)"
proof (rule round64_exact [of _ n 0])
  have "\<bar>real_of_int n\<bar> \<le> 2 ^ 53"
    using assms of_int_le_iff [of "\<bar>n\<bar>" "2 ^ 53", where ?'a = real] by simp
  moreover have "(2::real) ^ 53 < 2 ^ 1024" by simp
  ultimately show "- (2 ^ 1024) < real_of_int n" "real_of_int n < 2 ^ 1024" by linarith+
qed (use assms in simp_all)

lemma round64_half_int:
  assumes "\<bar>n\<bar> \<le> 2 ^ 53"
  shows "round64 (real_of_int n / 2) = Fin (real_of_int n / 2)"
proof (rule round64_exact [of _ n "- 1"])
  have "\<bar>real_of_int n\<bar> \<le> 2 ^ 53"
    using assms of_int_le_iff [of "\<bar>n\<bar>" "2 ^ 53", where ?'a = real] by simp
  moreover have "(2::real) ^ 53 < 2 ^ 1024" by simp
  ultimately show "- (2 ^ 1024) < real_of_int n / 2" "real_of_int n / 2 < 2 ^ 1024" by linarith+
qed (use assms in \<open>simp_all add: power_int_minus\<close>)

lemma round64_zero [simp]: "round64 0 = Fin 0"
  using round64_of_int [of 0] by simp

lemma round64_one [simp]: "round64 1 = Fin 1"
  using round64_of_int [of 1] by simp

lemma round64_numeral [simp]:
  "(numeral w :: int) \<le> 9007199254740992 \<Longrightarrow> round64 (numeral w) = Fin (numeral w)"
  using round64_of_int [of "numeral w"] by simp

lemma round64_neg_numeral [simp]:
  "(numeral w :: int) \<le> 9007199254740992 \<Longrightarrow> round64 (- numeral w) = Fin (- numeral w)"
  using round64_of_int [of "- numeral w"] by simp

lemma round64_numeral_half [simp]:
  "(numeral w :: int) \<le> 9007199254740992 \<Longrightarrow> round64 (numeral w / 2) = Fin (numeral w / 2)"
  using round64_half_int [of "numeral w"] by simp

lemma fle_refl_iff [simp]: "fle a a \<longleftrightarrow> a \<noteq> NaN"
  by (cases a) simp_all

text \<open>
  Rounding is part of the containment test. The double nearest to 0.7 is
  \<open>3152519739159347 / 2 ^ 52\<close>; its exact product with 1.5 lies halfway between two
  doubles and is rounded down to \<open>4728779608739020 / 2 ^ 52\<close>, the double printed as
  1.0499999999999998. A click at that x-coordinate is on the left edge of a box with
  \<^verbatim>\<open>x\<close> 0.7, although it lies left of the exact product.
\<close>

lemma nearest_tie_example:
  "nearest (9457559217478041 / 2 ^ 53) = 4728779608739020 / 2 ^ 52"
proof -
  let ?x = "9457559217478041 / 2 ^ 53 :: real"
  have i: "ilog2 ?x = 0"
    by (rule ilog2_eq) simp_all
  have a: "\<bar>?x\<bar> = ?x" by simp
  have u: "ulp ?x = 1 / 2 ^ 52"
    unfolding ulp_def a i by (simp add: power_int_minus field_simps)
  have q: "?x / ulp ?x = 9457559217478041 / 2"
    unfolding u by simp
  have r: "rne (9457559217478041 / 2) = 4728779608739020"
    by code_simp
  have "nearest ?x = real_of_int (rne (?x / ulp ?x)) * ulp ?x"
    unfolding nearest_def by (rule if_not_P) simp
  also have "\<dots> = real_of_int 4728779608739020 * (1 / 2 ^ 52)"
    unfolding q r unfolding u ..
  also have "\<dots> = 4728779608739020 / 2 ^ 52" by simp
  finally show ?thesis .
qed

lemma hit_at_rounded_edge:
  "fmul (Fin (3152519739159347 / 2 ^ 52)) (Fin (3 / 2)) = Fin (4728779608739020 / 2 ^ 52)"
proof -
  have "(3152519739159347 / 2 ^ 52) * (3 / 2) = (9457559217478041 / 2 ^ 53 :: real)" by simp
  moreover have "- (2 ^ 1024) < (4728779608739020 / 2 ^ 52 :: real)"
    "(4728779608739020 / 2 ^ 52 :: real) < 2 ^ 1024"
    by simp_all
  ultimately show ?thesis
    using nearest_tie_example by (simp only: fmul.simps round64_Fin_iff)
qed

subsection \<open>The steps of a load cycle\<close>

lemmas cycle_defs = fetchPdfData_def after_fetch_def after_document_def
  after_page_def after_render_def loadAndRenderPdf_def returning_def render_failed_def
  throw_def catch_block_def finally_block_def clear_canvas_def drawBoundingBoxes_def
  rebind_listener_def paint_def getViewport_def normalize_box_def truthy_def
  placeholder_def initial_def canvasRect_def blank_def fsub_def fge_def

lemmas example_defs = box1_def box2_def canvas0_def api_base_def page0_def metadata1_def
  metadata2_def no_boxes_def response_def env_ok_def env_paint_fails_def mounted_doc1_def
  ready_doc1_def doc1_pending_def doc2_done_def late_doc1_def onMounted_def watch_pdfId_def
  reset_for_def load_cycle_def metadata12_def ready_both_def click0_def viewport0_def
  box0_def click_miss_def

lemma run_4: "run 4 env p = run (Suc (Suc (Suc (Suc 0)))) env p"
  by (simp add: numeral_eq_Suc)

lemma run_render_3: "run_render 3 env p = run_render (Suc (Suc (Suc 0))) env p"
  by (simp add: numeral_eq_Suc)

lemma network_requests_append:
  "network_requests (xs @ ys) = network_requests xs @ network_requests ys"
  by (simp add: network_requests_def List.map_filter_def)

lemma calls_clear_canvas: "network_requests (calls (clear_canvas st)) = network_requests (calls st)"
  by (simp add: clear_canvas_def network_requests_append split: option.splits)
     (simp add: network_requests_def List.map_filter_def)

text \<open>What an error thrown inside the \<^verbatim>\<open>try\<close> of \<^verbatim>\<open>fetchPdfData\<close> leaves behind.\<close>

lemma throw_props:
  "snd (throw e st) = None"
  "error (fst (throw e st)) = Some e"
  "boundingBoxes (fst (throw e st)) = []"
  "pdfFileUrl (fst (throw e st)) = None"
  "isLoading (fst (throw e st)) = False"
  "pdfPageView (fst (throw e st)) = pdfPageView st"
  "pdfId (fst (throw e st)) = pdfId st"
  "network_requests (calls (fst (throw e st))) = network_requests (calls st)"
  using calls_clear_canvas [of "st\<lparr>error := Some e, boundingBoxes := [], pdfFileUrl := None\<rparr>"]
  by (simp_all add: throw_def finally_block_def catch_block_def)
     (simp_all add: clear_canvas_def split: option.splits)

lemma returning_props:
  "snd (returning (st, None)) = None"
  "isLoading (fst (returning (st, None))) = False"
  "returning (st, Some k) = (st, Some (AwaitLoadAndRender k))"
  by (simp_all add: returning_def finally_block_def)

text \<open>What a failure caught inside \<^verbatim>\<open>loadAndRenderPdf\<close> leaves behind.\<close>

lemma render_failed_props:
  "snd (render_failed reason st) = None"
  "isLoading (fst (render_failed reason st)) = isLoading st"
  "error (fst (render_failed reason st)) = Some (ErrString (''Failed to load PDF: '' @ reason))"
  "boundingBoxes (fst (render_failed reason st)) = boundingBoxes st"
  "pdfPageView (fst (render_failed reason st)) = pdfPageView st"
  "canvas (fst (render_failed reason st)) = canvas st"
  "calls (fst (render_failed reason st)) = calls st"
  by (simp_all add: render_failed_def)

lemma loadAndRenderPdf_frame:
  "boundingBoxes (fst (returning (loadAndRenderPdf url st))) = boundingBoxes st"
  "pdfFileUrl (fst (returning (loadAndRenderPdf url st))) = pdfFileUrl st"
  "pdfId (fst (returning (loadAndRenderPdf url st))) = pdfId st"
  by (simp_all add: loadAndRenderPdf_def returning_def finally_block_def split: option.splits)

lemma clear_canvas_frame:
  "boundingBoxes (clear_canvas st) = boundingBoxes st"
  "pdfFileUrl (clear_canvas st) = pdfFileUrl st"
  "pdfId (clear_canvas st) = pdfId st"
  "raster (clear_canvas st) = (case raster st of None \<Rightarrow> None | Some r \<Rightarrow> Some blank)"
  by (simp_all add: clear_canvas_def raster_def split: option.splits)

lemma reset_for_props:
  "pdfId (reset_for s st) = s"
  "boundingBoxes (reset_for s st) = []"
  "pdfFileUrl (reset_for s st) = None"
  "pdfPageView (reset_for s st) = None"
  "error (reset_for s st) = None"
  "isLoading (reset_for s st)"
  "raster (reset_for s st) = (case raster st of None \<Rightarrow> None | Some r \<Rightarrow> Some blank)"
  "network_requests (calls (reset_for s st)) = network_requests (calls st)"
  using calls_clear_canvas [of "st\<lparr>pdfId := s, boundingBoxes := [], pdfFileUrl := None\<rparr>"]
  by (simp_all add: reset_for_def clear_canvas_frame raster_def)
     (simp_all add: clear_canvas_def split: option.splits)

section \<open>The click handler\<close>

lemma click_loop_first:
  "case click_loop vp x y boxes of
     None \<Rightarrow> \<forall>b \<in> set boxes. \<not> box_hit vp x y b
   | Some b \<Rightarrow> \<exists>i < length boxes. boxes ! i = b \<and> box_hit vp x y b \<and>
                 (\<forall>j < i. \<not> box_hit vp x y (boxes ! j))"
proof (induction boxes)
  case Nil
  show ?case by simp
next
  case (Cons box rest)
  show ?case
  proof (cases "box_hit vp x y box")
    case True
    then show ?thesis by auto
  next
    case False
    show ?thesis
    proof (cases "click_loop vp x y rest")
      case None
      with Cons False show ?thesis by simp
    next
      case (Some b)
      with Cons obtain i where i: "i < length rest" "rest ! i = b" "box_hit vp x y b"
        "\<forall>j < i. \<not> box_hit vp x y (rest ! j)" by auto
      have "\<forall>j < Suc i. \<not> box_hit vp x y ((box # rest) ! j)"
        using False i(4) by (auto simp: less_Suc_eq_0_disj)
      with i have "\<exists>k < length (box # rest). (box # rest) ! k = b \<and> box_hit vp x y b \<and>
                 (\<forall>j < k. \<not> box_hit vp x y ((box # rest) ! j))"
        by (intro exI [of _ "Suc i"]) simp
      with False Some show ?thesis by simp
    qed
  qed
qed

text \<open>
  Claim C1. Let \<open>(x, y)\<close> be the clicked point on the canvas, the event's client
  coordinates less the canvas's offset. A click resolves to nothing while no viewport is
  stored (the page is not rendered yet). With a viewport of scale \<open>s\<close>, the handler goes
  through \<^verbatim>\<open>boundingBoxes\<close> in list order, which is the order of the server's response.
  The box \<open>b\<close> it resolves to is the one of lowest index with
  \<open>b.x * s \<le> x \<le> b.x * s + b.width * s\<close> and \<open>b.y * s \<le> y \<le> b.y * s + b.height * s\<close>,
  all computed and compared in doubles; it resolves to nothing exactly when no box
  satisfies these bounds.
\<close>

theorem hit_test_first_match:
  assumes "x = fsub (clientX event) (rect_left event)"
    and "y = fsub (clientY event) (rect_top event)"
  shows "(pdfPageView st = None \<longrightarrow> handleCanvasClick st event = None) \<and>
   (\<forall>viewport s. pdfPageView st = Some viewport \<and> s = vp_scale viewport \<longrightarrow>
      (case handleCanvasClick st event of
         None \<Rightarrow> \<forall>b \<in> set (boundingBoxes st).
            \<not> (fle (fmul (box_x b) s) x \<and>
               fle x (fadd (fmul (box_x b) s) (fmul (box_width b) s)) \<and>
               fle (fmul (box_y b) s) y \<and>
               fle y (fadd (fmul (box_y b) s) (fmul (box_height b) s)))
       | Some b \<Rightarrow> \<exists>i < length (boundingBoxes st).
             boundingBoxes st ! i = b \<and>
             fle (fmul (box_x b) s) x \<and>
             fle x (fadd (fmul (box_x b) s) (fmul (box_width b) s)) \<and>
             fle (fmul (box_y b) s) y \<and>
             fle y (fadd (fmul (box_y b) s) (fmul (box_height b) s)) \<and>
             (\<forall>j < i.
                \<not> (fle (fmul (box_x (boundingBoxes st ! j)) s) x \<and>
                   fle x (fadd (fmul (box_x (boundingBoxes st ! j)) s)
                            (fmul (box_width (boundingBoxes st ! j)) s)) \<and>
                   fle (fmul (box_y (boundingBoxes st ! j)) s) y \<and>
                   fle y (fadd (fmul (box_y (boundingBoxes st ! j)) s)
                            (fmul (box_height (boundingBoxes st ! j)) s))))))"
proof -
  have hit: "box_hit vp x y b \<longleftrightarrow>
      fle (fmul (box_x b) (vp_scale vp)) x \<and>
      fle x (fadd (fmul (box_x b) (vp_scale vp)) (fmul (box_width b) (vp_scale vp))) \<and>
      fle (fmul (box_y b) (vp_scale vp)) y \<and>
      fle y (fadd (fmul (box_y b) (vp_scale vp)) (fmul (box_height b) (vp_scale vp)))" for vp b
    by (simp add: box_hit_def canvasRect_def fge_def)
  show ?thesis
  proof (intro conjI allI impI)
    show "handleCanvasClick st event = None" if "pdfPageView st = None"
      using that by (simp add: handleCanvasClick_def)
  next
    fix viewport s
    assume a: "pdfPageView st = Some viewport \<and> s = vp_scale viewport"
    then have c: "handleCanvasClick st event = click_loop viewport x y (boundingBoxes st)"
      using assms by (simp add: handleCanvasClick_def)
    have s: "vp_scale viewport = s" using a by simp
    show "case handleCanvasClick st event of
         None \<Rightarrow> \<forall>b \<in> set (boundingBoxes st).
            \<not> (fle (fmul (box_x b) s) x \<and>
               fle x (fadd (fmul (box_x b) s) (fmul (box_width b) s)) \<and>
               fle (fmul (box_y b) s) y \<and>
               fle y (fadd (fmul (box_y b) s) (fmul (box_height b) s)))
       | Some b \<Rightarrow> \<exists>i < length (boundingBoxes st).
             boundingBoxes st ! i = b \<and>
             fle (fmul (box_x b) s) x \<and>
             fle x (fadd (fmul (box_x b) s) (fmul (box_width b) s)) \<and>
             fle (fmul (box_y b) s) y \<and>
             fle y (fadd (fmul (box_y b) s) (fmul (box_height b) s)) \<and>
             (\<forall>j < i.
                \<not> (fle (fmul (box_x (boundingBoxes st ! j)) s) x \<and>
                   fle x (fadd (fmul (box_x (boundingBoxes st ! j)) s)
                            (fmul (box_width (boundingBoxes st ! j)) s)) \<and>
                   fle (fmul (box_y (boundingBoxes st ! j)) s) y \<and>
                   fle y (fadd (fmul (box_y (boundingBoxes st ! j)) s)
                            (fmul (box_height (boundingBoxes st ! j)) s))))"
      using click_loop_first [where vp = viewport and x = x and y = y and boxes = "boundingBoxes st"]
      unfolding c hit s conj_assoc .
  qed
qed

text \<open>
  Claim C1, at a rendered document with the boxes \<open>box0\<close>, \<open>box1\<close>, \<open>box2\<close> in this
  order. A click at (110, 170), a point of \<open>box1\<close> and of \<open>box2\<close> and outside \<open>box0\<close>,
  resolves to \<open>box1\<close>: \<open>box0\<close> is passed over and \<open>box2\<close> is not reached. A click at
  (5, 5), a point of no box, resolves to nothing.
\<close>

theorem hit_test_first_match_witness:
  "pdfPageView ready_both = Some viewport0 \<and>
   boundingBoxes ready_both = [box0, box1, box2] \<and>
   fsub (clientX click0) (rect_left click0) = Fin 110 \<and>
   fsub (clientY click0) (rect_top click0) = Fin 170 \<and>
   \<not> box_hit viewport0 (Fin 110) (Fin 170) box0 \<and>
   box_hit viewport0 (Fin 110) (Fin 170) box2 \<and>
   handleCanvasClick ready_both click0 = Some box1 \<and>
   (\<exists>i < length (boundingBoxes ready_both).
      boundingBoxes ready_both ! i = box1 \<and>
      fle (fmul (box_x box1) (Fin (3 / 2))) (Fin 110) \<and>
      fle (Fin 110) (fadd (fmul (box_x box1) (Fin (3 / 2))) (fmul (box_width box1) (Fin (3 / 2)))) \<and>
      fle (fmul (box_y box1) (Fin (3 / 2))) (Fin 170) \<and>
      fle (Fin 170) (fadd (fmul (box_y box1) (Fin (3 / 2))) (fmul (box_height box1) (Fin (3 / 2))))) \<and>
   handleCanvasClick ready_both click_miss = None \<and>
   \<not> (fle (fmul (box_x box0) (Fin (3 / 2))) (Fin 5) \<and>
      fle (Fin 5) (fadd (fmul (box_x box0) (Fin (3 / 2))) (fmul (box_width box0) (Fin (3 / 2)))) \<and>
      fle (fmul (box_y box0) (Fin (3 / 2))) (Fin 5) \<and>
      fle (Fin 5) (fadd (fmul (box_y box0) (Fin (3 / 2))) (fmul (box_height box0) (Fin (3 / 2))))) \<and>
   \<not> (fle (fmul (box_x box1) (Fin (3 / 2))) (Fin 5) \<and>
      fle (Fin 5) (fadd (fmul (box_x box1) (Fin (3 / 2))) (fmul (box_width box1) (Fin (3 / 2)))) \<and>
      fle (fmul (box_y box1) (Fin (3 / 2))) (Fin 5) \<and>
      fle (Fin 5) (fadd (fmul (box_y box1) (Fin (3 / 2))) (fmul (box_height box1) (Fin (3 / 2))))) \<and>
   \<not> (fle (fmul (box_x box2) (Fin (3 / 2))) (Fin 5) \<and>
      fle (Fin 5) (fadd (fmul (box_x box2) (Fin (3 / 2))) (fmul (box_width box2) (Fin (3 / 2)))) \<and>
      fle (fmul (box_y box2) (Fin (3 / 2))) (Fin 5) \<and>
      fle (Fin 5) (fadd (fmul (box_y box2) (Fin (3 / 2))) (fmul (box_height box2) (Fin (3 / 2)))))"
proof -
  have v: "pdfPageView ready_both = Some viewport0"
    by (simp add: example_defs cycle_defs run_4)
  have b: "boundingBoxes ready_both = [box0, box1, box2]"
    by (simp add: example_defs cycle_defs run_4)
  have s: "vp_scale viewport0 = Fin (3 / 2)"
    by (simp add: viewport0_def)
  have xy: "fsub (clientX click0) (rect_left click0) = Fin 110"
    "fsub (clientY click0) (rect_top click0) = Fin 170"
    by (simp_all add: click0_def fsub_def)
  have xy': "fsub (clientX click_miss) (rect_left click_miss) = Fin 5"
    "fsub (clientY click_miss) (rect_top click_miss) = Fin 5"
    by (simp_all add: click_miss_def fsub_def)
  have h0: "\<not> box_hit viewport0 (Fin 110) (Fin 170) box0"
    by (simp add: box_hit_def canvasRect_def fge_def viewport0_def box0_def)
  have h1: "box_hit viewport0 (Fin 110) (Fin 170) box1"
    by (simp add: box_hit_def canvasRect_def fge_def viewport0_def box1_def)
  have h2: "box_hit viewport0 (Fin 110) (Fin 170) box2"
    by (simp add: box_hit_def canvasRect_def fge_def viewport0_def box2_def)
  have m: "\<not> box_hit viewport0 (Fin 5) (Fin 5) box0" "\<not> box_hit viewport0 (Fin 5) (Fin 5) box1"
    "\<not> box_hit viewport0 (Fin 5) (Fin 5) box2"
    by (simp_all add: box_hit_def canvasRect_def fge_def viewport0_def box0_def box1_def box2_def)
  have c: "handleCanvasClick ready_both click0 = Some box1"
    by (simp add: handleCanvasClick_def v b xy h0 h1)
  have c': "handleCanvasClick ready_both click_miss = None"
    by (simp add: handleCanvasClick_def v b xy' m)
  have d: "box1 \<noteq> box0"
    by (simp add: box0_def box1_def)
  note hit = hit_test_first_match [OF xy(1) [symmetric] xy(2) [symmetric], of ready_both]
  note miss = hit_test_first_match [OF xy'(1) [symmetric] xy'(2) [symmetric], of ready_both]
  from hit v s c have
    "\<exists>i < length (boundingBoxes ready_both).
      boundingBoxes ready_both ! i = box1 \<and>
      fle (fmul (box_x box1) (Fin (3 / 2))) (Fin 110) \<and>
      fle (Fin 110) (fadd (fmul (box_x box1) (Fin (3 / 2))) (fmul (box_width box1) (Fin (3 / 2)))) \<and>
      fle (fmul (box_y box1) (Fin (3 / 2))) (Fin 170) \<and>
      fle (Fin 170) (fadd (fmul (box_y box1) (Fin (3 / 2))) (fmul (box_height box1) (Fin (3 / 2))))"
    by auto
  moreover from miss v s c' have
    "\<forall>b \<in> set (boundingBoxes ready_both).
      \<not> (fle (fmul (box_x b) (Fin (3 / 2))) (Fin 5) \<and>
         fle (Fin 5) (fadd (fmul (box_x b) (Fin (3 / 2))) (fmul (box_width b) (Fin (3 / 2)))) \<and>
         fle (fmul (box_y b) (Fin (3 / 2))) (Fin 5) \<and>
         fle (Fin 5) (fadd (fmul (box_y b) (Fin (3 / 2))) (fmul (box_height b) (Fin (3 / 2)))))"
    by auto
  ultimately show ?thesis using v b xy h0 h2 c c' by simp
qed

section \<open>The centre of a box\<close>







section \<open>Normalizing the box records\<close>

text \<open>
  Claim C7, as stated, fails: a record whose \<^verbatim>\<open>element_id\<close> is present but is the empty
  string gets the value of its \<^verbatim>\<open>id\<close> field as identifier.
\<close>

theorem empty_element_id_falls_back:
  "element_id empty_id_box = Some [] \<and> element_id (normalize_box empty_id_box) = Some ''b7''"
  by (simp add: empty_id_box_def normalize_box_def truthy_def)

text \<open>
  Claim C7, amended. The normalized box's identifier is the record's \<^verbatim>\<open>element_id\<close>
  when that is a non-empty string; when \<^verbatim>\<open>element_id\<close> is absent or empty it is the
  record's \<^verbatim>\<open>id\<close>. The coordinates, the text and the \<^verbatim>\<open>id\<close> field are passed through
  unchanged.
\<close>

theorem normalize_box_identifier:
  "(\<forall>s. element_id box = Some s \<and> s \<noteq> [] \<longrightarrow> element_id (normalize_box box) = Some s) \<and>
   (element_id box = None \<or> element_id box = Some [] \<longrightarrow>
      element_id (normalize_box box) = box_id box) \<and>
   box_x (normalize_box box) = box_x box \<and>
   box_y (normalize_box box) = box_y box \<and>
   box_width (normalize_box box) = box_width box \<and>
   box_height (normalize_box box) = box_height box \<and>
   box_text (normalize_box box) = box_text box \<and>
   box_id (normalize_box box) = box_id box"
  by (auto simp: normalize_box_def truthy_def)

text \<open>
  Claim C7, amended, at a record with \<^verbatim>\<open>element_id\<close> and at a record with \<^verbatim>\<open>id\<close> only.
\<close>

theorem normalize_box_identifier_witness:
  "element_id box1 = Some ''box1'' \<and> element_id (normalize_box box1) = Some ''box1'' \<and>
   element_id legacy_box = None \<and> element_id (normalize_box legacy_box) = Some ''b7'' \<and>
   box_x (normalize_box legacy_box) = Fin 10"
proof -
  have a: "element_id box1 = Some ''box1''" by (simp add: box1_def)
  have b: "element_id legacy_box = None" "box_id legacy_box = Some ''b7''" "box_x legacy_box = Fin 10"
    by (simp_all add: legacy_box_def)
  from normalize_box_identifier [of box1] normalize_box_identifier [of legacy_box] a b
  show ?thesis by simp
qed

section \<open>The configuration check\<close>

text \<open>
  Claim C4. When the API base URL is unset (undefined or empty) or is the placeholder,
  \<^verbatim>\<open>fetchPdfData\<close> ends at once, without suspending: the error is the configuration error,
  the loading flag is off, and no request has been added to those made before. The whole
  load cycle is this first step, whatever the collaborators would have answered.
\<close>

theorem config_checked_before_fetch:
  assumes "apiBaseUrl = None \<or> apiBaseUrl = Some [] \<or> apiBaseUrl = Some placeholder"
  shows "snd (fetchPdfData apiBaseUrl ident st) = None \<and>
         error (fst (fetchPdfData apiBaseUrl ident st)) = Some (JsError config_message) \<and>
         \<not> isLoading (fst (fetchPdfData apiBaseUrl ident st)) \<and>
         network_requests (calls (fst (fetchPdfData apiBaseUrl ident st))) = network_requests (calls st) \<and>
         load_cycle env apiBaseUrl ident st = fetchPdfData apiBaseUrl ident st"
proof -
  have eq: "fetchPdfData apiBaseUrl ident st =
        throw (JsError config_message) (st\<lparr>isLoading := True, error := None\<rparr>)"
    using assms by (auto simp: fetchPdfData_def)
  have "run 4 env (throw (JsError config_message) (st\<lparr>isLoading := True, error := None\<rparr>)) =
        throw (JsError config_message) (st\<lparr>isLoading := True, error := None\<rparr>)"
    by (simp add: run_4 throw_def)
  then show ?thesis
    by (simp add: eq throw_props load_cycle_def)
qed

text \<open>Claim C4, at the placeholder of \<^verbatim>\<open>nuxt.config.ts\<close> on a freshly mounted page.\<close>

theorem config_checked_before_fetch_witness:
  "snd (fetchPdfData (Some placeholder) ''doc1'' mounted_doc1) = None \<and>
   error (fst (fetchPdfData (Some placeholder) ''doc1'' mounted_doc1)) = Some (JsError config_message) \<and>
   network_requests (calls (fst (fetchPdfData (Some placeholder) ''doc1'' mounted_doc1))) = []"
proof -
  have n: "network_requests (calls mounted_doc1) = []"
    by (simp add: mounted_doc1_def initial_def network_requests_def List.map_filter_def)
  have "Some placeholder = None \<or> Some placeholder = Some [] \<or> Some placeholder = Some placeholder"
    by simp
  from config_checked_before_fetch [OF this, of "''doc1''" mounted_doc1] n show ?thesis
    by simp
qed

section \<open>Every load cycle finishes with the loading flag off\<close>

lemma loadAndRenderPdf_cases:
  "(snd (returning (loadAndRenderPdf url st)) = None \<and>
      \<not> isLoading (fst (returning (loadAndRenderPdf url st)))) \<or>
   snd (returning (loadAndRenderPdf url st)) = Some (AwaitLoadAndRender (AwaitDocument url))"
  by (simp add: loadAndRenderPdf_def returning_def finally_block_def split: option.splits)

lemma after_fetch_cases:
  "(snd (after_fetch ident resp st) = None \<and> \<not> isLoading (fst (after_fetch ident resp st))) \<or>
   (\<exists>url. snd (after_fetch ident resp st) = Some (AwaitLoadAndRender (AwaitDocument url)))"
  using loadAndRenderPdf_cases
  by (auto simp: after_fetch_def throw_props Let_def split: option.splits)

lemma after_document_cases:
  "snd (after_document url outcome st) = None \<or>
   snd (after_document url outcome st) = Some (AwaitPage url)"
  by (simp add: after_document_def render_failed_props split: Outcome.splits)

lemma after_page_cases:
  "snd (after_page url outcome st) = None \<or>
   snd (after_page url outcome st) = Some (AwaitRender url)"
  by (simp add: after_page_def render_failed_props Let_def split: Outcome.splits)

lemma after_render_done: "snd (after_render url outcome st) = None"
  by (simp add: after_render_def render_failed_props split: Outcome.splits)

lemma returning_None: "snd p = None \<Longrightarrow> snd (returning p) = None \<and> \<not> isLoading (fst (returning p))"
  by (cases p) (simp add: returning_def finally_block_def)

lemma returning_Some: "snd p = Some k \<Longrightarrow> snd (returning p) = Some (AwaitLoadAndRender k)"
  by (cases p) (simp add: returning_def)

text \<open>
  A resumed cycle either finishes, with the loading flag off, or suspends again with
  fewer awaits before it; this holds in every state, whatever ran in between.
\<close>

lemma resume_progress:
  "(snd (resume env k st) = None \<and> \<not> isLoading (fst (resume env k st))) \<or>
   (\<exists>k'. snd (resume env k st) = Some k' \<and> awaits_left k' < awaits_left k)"
proof (cases k)
  case (AwaitFetch ident)
  then show ?thesis using after_fetch_cases [of ident "env_fetch env" st] by auto
next
  case (AwaitLoadAndRender r)
  show ?thesis
  proof (cases r)
    case (AwaitDocument url)
    then show ?thesis
      using AwaitLoadAndRender after_document_cases [of url "env_document env" st]
        returning_None [of "after_document url (env_document env) st"]
        returning_Some [of "after_document url (env_document env) st"]
      by auto
  next
    case (AwaitPage url)
    then show ?thesis
      using AwaitLoadAndRender after_page_cases [of url "env_page env" st]
        returning_None [of "after_page url (env_page env) st"]
        returning_Some [of "after_page url (env_page env) st"]
      by auto
  next
    case (AwaitRender url)
    then show ?thesis
      using AwaitLoadAndRender after_render_done [of url "env_render env" st]
        returning_None [of "after_render url (env_render env) st"]
      by auto
  qed
qed

lemma awaits_left_pos [simp]: "awaits_left k \<noteq> 0"
  by (cases k rule: awaits_left.cases) simp_all

lemma run_completes:
  "settled n p \<Longrightarrow> snd (run n env p) = None \<and> \<not> isLoading (fst (run n env p))"
proof (induction n arbitrary: p)
  case 0
  obtain st r where p: "p = (st, r)" by (cases p)
  with 0 show ?case by (cases r) (auto simp: settled_def)
next
  case (Suc n)
  obtain st r where p: "p = (st, r)" by (cases p)
  show ?case
  proof (cases r)
    case None
    with Suc.prems p show ?thesis by (simp add: settled_def)
  next
    case (Some k)
    have "settled n (resume env k st)"
      using resume_progress [of env k st] Suc.prems p Some
      by (auto simp: settled_def)
    from Suc.IH [OF this] show ?thesis using p Some by simp
  qed
qed

lemma fetchPdfData_settled: "settled 4 (fetchPdfData apiBaseUrl ident st)"
  by (simp add: fetchPdfData_def settled_def throw_props Let_def split: option.splits)

text \<open>
  Claim C9. Every invocation of \<^verbatim>\<open>fetchPdfData\<close> runs to its end within its four awaits,
  whatever the metadata API and the engine answer and whatever the configuration is, and
  when it has finished, by success or by any error, \<^verbatim>\<open>isLoading\<close> is false.
\<close>

theorem loading_flag_cleared:
  "snd (load_cycle env apiBaseUrl ident st) = None \<and>
   \<not> isLoading (fst (load_cycle env apiBaseUrl ident st))"
  unfolding load_cycle_def by (rule run_completes [OF fetchPdfData_settled])

section \<open>A payload without a box list\<close>

text \<open>
  Claim C10. When the metadata payload has a storage path but no array of bounding
  boxes, the load cycle ends with an error recorded, the box list empty and the loading
  flag off; with a configured API base the error is the \<^verbatim>\<open>TypeError\<close> raised by
  \<^verbatim>\<open>boundingBoxes.map\<close>. The missing list is not read as an empty list.
\<close>

theorem missing_box_list_is_error:
  assumes "fr_error (env_fetch env) = None"
    and "fr_data (env_fetch env) = Some md"
    and "truthy (md_cloudStoragePath md)"
    and "md_boundingBoxes md = None"
  shows "snd (load_cycle env apiBaseUrl ident st) = None \<and>
         error (fst (load_cycle env apiBaseUrl ident st)) \<noteq> None \<and>
         boundingBoxes (fst (load_cycle env apiBaseUrl ident st)) = [] \<and>
         \<not> isLoading (fst (load_cycle env apiBaseUrl ident st)) \<and>
         (\<forall>base. apiBaseUrl = Some base \<and> base \<noteq> [] \<and> base \<noteq> placeholder \<longrightarrow>
            error (fst (load_cycle env apiBaseUrl ident st)) = Some JsTypeError)"
proof -
  have thrown: "after_fetch ident (env_fetch env) s =
        throw JsTypeError (s\<lparr>pdfFileUrl := md_cloudStoragePath md\<rparr>)" for s
    using assms by (simp add: after_fetch_def)
  show ?thesis
  proof (cases "\<exists>base. apiBaseUrl = Some base \<and> base \<noteq> [] \<and> base \<noteq> placeholder")
    case True
    then obtain base where b: "apiBaseUrl = Some base" "base \<noteq> []" "base \<noteq> placeholder" by auto
    have "load_cycle env apiBaseUrl ident st =
          throw JsTypeError
            (st\<lparr>isLoading := True, error := None,
                calls := calls st @ [UseFetch (base @ ''/documents/'' @ ident)],
                pdfFileUrl := md_cloudStoragePath md\<rparr>)"
      using b by (simp add: load_cycle_def fetchPdfData_def run_4 thrown) (simp add: throw_def)
    then have "snd (load_cycle env apiBaseUrl ident st) = None"
      "error (fst (load_cycle env apiBaseUrl ident st)) = Some JsTypeError"
      "boundingBoxes (fst (load_cycle env apiBaseUrl ident st)) = []"
      "\<not> isLoading (fst (load_cycle env apiBaseUrl ident st))"
      by (simp_all add: throw_props)
    then show ?thesis by blast
  next
    case False
    then have "apiBaseUrl = None \<or> apiBaseUrl = Some [] \<or> apiBaseUrl = Some placeholder"
      by (cases apiBaseUrl) auto
    then have "load_cycle env apiBaseUrl ident st =
        throw (JsError config_message) (st\<lparr>isLoading := True, error := None\<rparr>)"
      by (auto simp: load_cycle_def fetchPdfData_def run_4 throw_def)
    then have "snd (load_cycle env apiBaseUrl ident st) = None"
      "error (fst (load_cycle env apiBaseUrl ident st)) = Some (JsError config_message)"
      "boundingBoxes (fst (load_cycle env apiBaseUrl ident st)) = []"
      "\<not> isLoading (fst (load_cycle env apiBaseUrl ident st))"
      by (simp_all add: throw_props)
    with False show ?thesis by blast
  qed
qed

text \<open>Claim C10, at a payload that has the storage path of \<^verbatim>\<open>doc1\<close> and no box list.\<close>

theorem missing_box_list_is_error_witness:
  "fr_error (env_fetch (env_ok no_boxes)) = None \<and>
   fr_data (env_fetch (env_ok no_boxes)) = Some no_boxes \<and>
   truthy (md_cloudStoragePath no_boxes) \<and>
   md_boundingBoxes no_boxes = None \<and>
   error (fst (load_cycle (env_ok no_boxes) api_base ''doc1'' mounted_doc1)) = Some JsTypeError \<and>
   boundingBoxes (fst (load_cycle (env_ok no_boxes) api_base ''doc1'' mounted_doc1)) = []"
proof -
  have a: "fr_error (env_fetch (env_ok no_boxes)) = None"
    and b: "fr_data (env_fetch (env_ok no_boxes)) = Some no_boxes"
    and c: "truthy (md_cloudStoragePath no_boxes)"
    and d: "md_boundingBoxes no_boxes = None"
    by (simp_all add: env_ok_def response_def no_boxes_def truthy_def)
  have e: "api_base = Some ''https://api.example.com'' \<and> ''https://api.example.com'' \<noteq> [] \<and>
           ''https://api.example.com'' \<noteq> placeholder"
    by (simp add: api_base_def placeholder_def)
  from missing_box_list_is_error [OF a b c d, of api_base "''doc1''" mounted_doc1] a b c d e
  show ?thesis by blast
qed

section \<open>Failures of the render\<close>

text \<open>
  Claim C3 does not hold for a failure of the render. The metadata of \<^verbatim>\<open>doc1\<close> arrives
  with one box, the document and its page load, and painting the page fails: the
  \<^verbatim>\<open>catch\<close> of \<^verbatim>\<open>loadAndRenderPdf\<close> records the error and does not rethrow, so the
  \<^verbatim>\<open>catch\<close> of \<^verbatim>\<open>fetchPdfData\<close>, which empties the box list, never runs. The cycle ends
  with the error set and with the box, the storage path and the viewport still stored.
\<close>

theorem render_failure_keeps_boxes:
  "snd (load_cycle env_paint_fails api_base ''doc1'' mounted_doc1) = None \<and>
   error (fst (load_cycle env_paint_fails api_base ''doc1'' mounted_doc1)) =
     Some (ErrString ''Failed to load PDF: boom'') \<and>
   boundingBoxes (fst (load_cycle env_paint_fails api_base ''doc1'' mounted_doc1)) = [box1] \<and>
   pdfFileUrl (fst (load_cycle env_paint_fails api_base ''doc1'' mounted_doc1)) =
     Some ''https://x/doc1.pdf'' \<and>
   pdfPageView (fst (load_cycle env_paint_fails api_base ''doc1'' mounted_doc1)) =
     Some \<lparr>vp_scale = Fin (3 / 2), vp_width = Fin 600, vp_height = Fin 900\<rparr>"
  by (simp add: example_defs cycle_defs run_4)

section \<open>A load cycle that resolves late\<close>

text \<open>
  Claim C2, as stated, fails. The page is mounted for \<^verbatim>\<open>doc1\<close> and its cycle is
  suspended at the metadata fetch when the identifier changes to \<^verbatim>\<open>doc2\<close>. The cycle of
  \<^verbatim>\<open>doc2\<close> runs to its end and the page shows the box of \<^verbatim>\<open>doc2\<close>. Then the fetch of
  \<^verbatim>\<open>doc1\<close> resolves: its box, its storage path and its page replace those of
  \<^verbatim>\<open>doc2\<close>, while the current identifier is still \<^verbatim>\<open>doc2\<close>.
\<close>

theorem stale_results_overwrite:
  "snd doc1_pending = Some (AwaitFetch ''doc1'') \<and>
   snd doc2_done = None \<and>
   pdfId (fst doc2_done) = ''doc2'' \<and>
   boundingBoxes (fst doc2_done) = [box2] \<and>
   snd late_doc1 = None \<and>
   pdfId (fst late_doc1) = ''doc2'' \<and>
   boundingBoxes (fst late_doc1) = [box1] \<and>
   pdfFileUrl (fst late_doc1) = Some ''https://x/doc1.pdf'' \<and>
   raster (fst late_doc1) =
     Some \<lparr>page_image = Some ''https://x/doc1.pdf'',
            strokes = [(Fin 75, Fin 150, Fin 225, Fin 45)]\<rparr>"
  by (simp add: example_defs cycle_defs run_4 raster_def)

text \<open>
  Claim C2, amended. The late results of a cycle are committed when they arrive: no
  step compares the identifier the cycle was started for with the current one. In every
  state and for every originating identifier, a metadata fetch that resolves with a box
  list and a storage path stores the normalized boxes and the path, and a page that
  resolves stores its viewport at scale 1.5; neither step changes \<^verbatim>\<open>pdfId\<close>. So the
  results of the cycle of \<^verbatim>\<open>doc1\<close>, still pending when the identifier changed to
  \<^verbatim>\<open>doc2\<close>, can end up in the final state under the identifier \<^verbatim>\<open>doc2\<close>.
\<close>

theorem results_committed_unconditionally:
  "(fr_error resp = None \<and> fr_data resp = Some md \<and> md_boundingBoxes md = Some raw \<and>
    md_cloudStoragePath md = Some url \<and> url \<noteq> [] \<longrightarrow>
      boundingBoxes (fst (after_fetch ident resp st)) = map normalize_box raw \<and>
      pdfFileUrl (fst (after_fetch ident resp st)) = Some url \<and>
      pdfId (fst (after_fetch ident resp st)) = pdfId st) \<and>
   pdfPageView (fst (after_page url' (Resolved page) st)) = Some (getViewport page (Fin (3 / 2))) \<and>
   pdfId (fst (after_page url' (Resolved page) st)) = pdfId st \<and>
   (snd doc1_pending = Some (AwaitFetch ''doc1'') \<and>
    pdfId (fst doc2_done) = ''doc2'' \<and>
    pdfId (fst late_doc1) = ''doc2'' \<and>
    boundingBoxes (fst late_doc1) = [box1] \<and>
    pdfFileUrl (fst late_doc1) = Some ''https://x/doc1.pdf'')"
proof -
  have steps:
    "(fr_error resp = None \<and> fr_data resp = Some md \<and> md_boundingBoxes md = Some raw \<and>
      md_cloudStoragePath md = Some url \<and> url \<noteq> [] \<longrightarrow>
        boundingBoxes (fst (after_fetch ident resp st)) = map normalize_box raw \<and>
        pdfFileUrl (fst (after_fetch ident resp st)) = Some url \<and>
        pdfId (fst (after_fetch ident resp st)) = pdfId st) \<and>
     pdfPageView (fst (after_page url' (Resolved page) st)) = Some (getViewport page (Fin (3 / 2))) \<and>
     pdfId (fst (after_page url' (Resolved page) st)) = pdfId st"
    by (simp add: after_fetch_def loadAndRenderPdf_frame after_page_def Let_def)
  have late:
    "snd doc1_pending = Some (AwaitFetch ''doc1'') \<and>
     pdfId (fst doc2_done) = ''doc2'' \<and>
     pdfId (fst late_doc1) = ''doc2'' \<and>
     boundingBoxes (fst late_doc1) = [box1] \<and>
     pdfFileUrl (fst late_doc1) = Some ''https://x/doc1.pdf''"
    by (simp add: example_defs cycle_defs run_4)
  from steps late show ?thesis by blast
qed

text \<open>
  Claim C2, amended, at the late fetch of \<^verbatim>\<open>doc1\<close> in the state the cycle of
  \<^verbatim>\<open>doc2\<close> has left.
\<close>

theorem results_committed_unconditionally_witness:
  "pdfId (fst doc2_done) = ''doc2'' \<and>
   fr_error (response metadata1) = None \<and> fr_data (response metadata1) = Some metadata1 \<and>
   md_boundingBoxes metadata1 = Some [box1] \<and>
   md_cloudStoragePath metadata1 = Some ''https://x/doc1.pdf'' \<and>
   boundingBoxes (fst (after_fetch ''doc1'' (response metadata1) (fst doc2_done))) = [box1] \<and>
   pdfFileUrl (fst (after_fetch ''doc1'' (response metadata1) (fst doc2_done))) =
     Some ''https://x/doc1.pdf'' \<and>
   pdfId (fst (after_fetch ''doc1'' (response metadata1) (fst doc2_done))) = ''doc2''"
proof -
  have p: "pdfId (fst doc2_done) = ''doc2''"
    by (simp add: example_defs cycle_defs run_4)
  have r: "fr_error (response metadata1) = None" "fr_data (response metadata1) = Some metadata1"
    "md_boundingBoxes metadata1 = Some [box1]"
    "md_cloudStoragePath metadata1 = Some ''https://x/doc1.pdf''"
    by (simp_all add: response_def metadata1_def)
  have n: "map normalize_box [box1] = [box1]"
    by (simp add: normalize_box_def box1_def truthy_def)
  from results_committed_unconditionally [of "response metadata1" metadata1 "[box1]"
      "''https://x/doc1.pdf''" "''doc1''" "fst doc2_done"] p r n
  show ?thesis by simp
qed

section \<open>Identifier changes\<close>

text \<open>
  Claim C5, as stated, fails: when the route's parameter changes to the empty string,
  which differs from the current identifier \<^verbatim>\<open>doc1\<close>, the watcher does nothing; the
  box of \<^verbatim>\<open>doc1\<close> stays and no cycle starts.
\<close>

theorem empty_identifier_ignored:
  "pdfId ready_doc1 = ''doc1'' \<and> boundingBoxes ready_doc1 = [box1] \<and>
   watch_pdfId api_base (ParamString []) ready_doc1 = (ready_doc1, None)"
  by (simp add: example_defs cycle_defs run_4)

text \<open>
  Claim C5, amended. When the new identifier is a non-empty string that differs from the
  current one, the watcher calls \<^verbatim>\<open>fetchPdfData\<close> on a state in which the identifier is
  the new one, the boxes, the viewport and the error are cleared, the raster content (if
  there is a canvas with a context) is blank and no request has been made yet; with a
  configured API base the watcher returns in that state with the one request added and
  the new cycle suspended at its fetch. When the new identifier equals the current one,
  the watcher changes nothing and starts no cycle.
\<close>

theorem identifier_change_resets:
  "(s \<noteq> [] \<and> s \<noteq> pdfId st \<longrightarrow>
      watch_pdfId apiBaseUrl (ParamString s) st = fetchPdfData apiBaseUrl s (reset_for s st) \<and>
      pdfId (reset_for s st) = s \<and>
      boundingBoxes (reset_for s st) = [] \<and>
      pdfPageView (reset_for s st) = None \<and>
      error (reset_for s st) = None \<and>
      raster (reset_for s st) = (case raster st of None \<Rightarrow> None | Some r \<Rightarrow> Some blank) \<and>
      network_requests (calls (reset_for s st)) = network_requests (calls st) \<and>
      (\<forall>base. apiBaseUrl = Some base \<and> base \<noteq> [] \<and> base \<noteq> placeholder \<longrightarrow>
         watch_pdfId apiBaseUrl (ParamString s) st =
           ((reset_for s st)\<lparr>calls := calls (reset_for s st) @ [UseFetch (base @ ''/documents/'' @ s)]\<rparr>,
            Some (AwaitFetch s)))) \<and>
   (s = pdfId st \<longrightarrow> watch_pdfId apiBaseUrl (ParamString s) st = (st, None))"
proof -
  have "isLoading (reset_for s st)" "error (reset_for s st) = None"
    by (simp_all add: reset_for_props)
  then have same: "(reset_for s st)\<lparr>isLoading := True, error := None\<rparr> = reset_for s st"
    by simp
  show ?thesis
    by (auto simp: watch_pdfId_def reset_for_props fetchPdfData_def same Let_def)
qed

text \<open>
  Claim C5, amended, at the page showing \<^verbatim>\<open>doc1\<close>: a change to \<^verbatim>\<open>doc2\<close> and a
  change to \<^verbatim>\<open>doc1\<close>.
\<close>

theorem identifier_change_resets_witness:
  "pdfId ready_doc1 = ''doc1'' \<and> boundingBoxes ready_doc1 = [box1] \<and>
   snd (watch_pdfId api_base (ParamString ''doc2'') ready_doc1) = Some (AwaitFetch ''doc2'') \<and>
   boundingBoxes (reset_for ''doc2'' ready_doc1) = [] \<and>
   pdfPageView (reset_for ''doc2'' ready_doc1) = None \<and>
   raster (reset_for ''doc2'' ready_doc1) = Some blank \<and>
   watch_pdfId api_base (ParamString ''doc1'') ready_doc1 = (ready_doc1, None)"
proof -
  have p: "pdfId ready_doc1 = ''doc1''" "boundingBoxes ready_doc1 = [box1]"
    by (simp_all add: example_defs cycle_defs run_4)
  have r: "raster ready_doc1 =
      Some \<lparr>page_image = Some ''https://x/doc1.pdf'',
             strokes = [(Fin 75, Fin 150, Fin 225, Fin 45)]\<rparr>"
    by (simp add: example_defs cycle_defs run_4 raster_def)
  have e: "api_base = Some ''https://api.example.com'' \<and> ''https://api.example.com'' \<noteq> [] \<and>
           ''https://api.example.com'' \<noteq> placeholder"
    by (simp add: api_base_def placeholder_def)
  have d: "''doc2'' \<noteq> [] \<and> ''doc2'' \<noteq> pdfId ready_doc1"
    by (simp add: p)
  note change = identifier_change_resets [of "''doc2''" ready_doc1 api_base]
  have "watch_pdfId api_base (ParamString ''doc2'') ready_doc1 =
      ((reset_for ''doc2'' ready_doc1)
         \<lparr>calls := calls (reset_for ''doc2'' ready_doc1) @
            [UseFetch (''https://api.example.com'' @ ''/documents/'' @ ''doc2'')]\<rparr>,
       Some (AwaitFetch ''doc2''))"
    using change d e by blast
  then have w: "snd (watch_pdfId api_base (ParamString ''doc2'') ready_doc1) = Some (AwaitFetch ''doc2'')"
    by simp
  have c: "boundingBoxes (reset_for ''doc2'' ready_doc1) = []"
    "pdfPageView (reset_for ''doc2'' ready_doc1) = None"
    "raster (reset_for ''doc2'' ready_doc1) = Some blank"
    using change d r by simp_all
  have s: "watch_pdfId api_base (ParamString ''doc1'') ready_doc1 = (ready_doc1, None)"
    using identifier_change_resets [of "''doc1''" ready_doc1 api_base] p by simp
  from p w c s show ?thesis by simp
qed

section \<open>The steps of a render\<close>

text \<open>
  Claim C8. On a canvas with a 2D context, a render in which the engine succeeds makes
  exactly these calls, in this order: clear the canvas, load the document from the URL,
  get page 1, get the viewport at scale 1.5, set the canvas's height and width to the
  viewport's, paint the page; then it strokes the boxes and rebinds the click
  listener. The canvas ends with the viewport's size and holds the new page and the
  new strokes only. When the engine fails at any of its three steps, the render ends
  with its error recorded and the raster content blank. Without a canvas or without a
  context there is no raster content, before or after, and the engine is not called.
\<close>

theorem render_steps:
  "(canvas st = Some c \<and> context2d c = Some r \<and> env_document env = Resolved () \<and>
    env_page env = Resolved page \<and> env_render env = Resolved () \<longrightarrow>
      snd (render_page env url st) = None \<and>
      calls (fst (render_page env url st)) =
        calls st @
        [ClearRect, GetDocument url, GetPage 1, GetViewport (Fin (3 / 2)),
         SetCanvasHeight (fmul (page_height page) (Fin (3 / 2))),
         SetCanvasWidth (fmul (page_width page) (Fin (3 / 2))),
         RenderPage] @
        map StrokeRect (map (canvasRect (getViewport page (Fin (3 / 2)))) (boundingBoxes st)) @
        [RemoveClickListener, AddClickListener] \<and>
      pdfPageView (fst (render_page env url st)) = Some (getViewport page (Fin (3 / 2))) \<and>
      canvas (fst (render_page env url st)) =
        Some (c\<lparr>cv_width := fmul (page_width page) (Fin (3 / 2)),
                cv_height := fmul (page_height page) (Fin (3 / 2)),
                context2d := Some \<lparr>page_image = Some url,
                   strokes = map (canvasRect (getViewport page (Fin (3 / 2)))) (boundingBoxes st)\<rparr>,
                click_listener := True\<rparr>)) \<and>
   (canvas st = Some c \<and> context2d c = Some r \<and> \<not> engine_succeeds env \<longrightarrow>
      snd (render_page env url st) = None \<and>
      raster (fst (render_page env url st)) = Some blank \<and>
      (\<exists>reason. error (fst (render_page env url st)) =
         Some (ErrString (''Failed to load PDF: '' @ reason)))) \<and>
   (raster st = None \<longrightarrow>
      snd (render_page env url st) = None \<and>
      raster (fst (render_page env url st)) = None \<and>
      calls (fst (render_page env url st)) = calls st \<and>
      error (fst (render_page env url st)) \<noteq> None)"
  by (auto simp: render_page_def run_render_3 loadAndRenderPdf_def after_document_def
      after_page_def after_render_def render_failed_def paint_def
      drawBoundingBoxes_def rebind_listener_def getViewport_def raster_def engine_succeeds_def
      blank_def Let_def
      split: option.splits Outcome.splits)

text \<open>
  Claim C8, on the freshly mounted page, whose canvas still shows an old page: a render
  that succeeds and a render whose painting fails.
\<close>

theorem render_steps_witness:
  "canvas mounted_doc1 = Some canvas0 \<and>
   context2d canvas0 =
     Some \<lparr>page_image = Some ''old.pdf'', strokes = [(Fin 1, Fin 2, Fin 3, Fin 4)]\<rparr> \<and>
   calls (fst (render_page (env_ok metadata1) ''https://x/doc1.pdf'' mounted_doc1)) =
     [ClearRect, GetDocument ''https://x/doc1.pdf'', GetPage 1, GetViewport (Fin (3 / 2)),
      SetCanvasHeight (Fin 900), SetCanvasWidth (Fin 600), RenderPage,
      RemoveClickListener, AddClickListener] \<and>
   \<not> engine_succeeds env_paint_fails \<and>
   raster (fst (render_page env_paint_fails ''https://x/doc1.pdf'' mounted_doc1)) = Some blank"
proof -
  have c: "canvas mounted_doc1 = Some canvas0"
    "context2d canvas0 =
       Some \<lparr>page_image = Some ''old.pdf'', strokes = [(Fin 1, Fin 2, Fin 3, Fin 4)]\<rparr>"
    "calls mounted_doc1 = []" "boundingBoxes mounted_doc1 = []"
    by (simp_all add: mounted_doc1_def initial_def canvas0_def)
  have e: "env_document (env_ok metadata1) = Resolved ()" "env_page (env_ok metadata1) = Resolved page0"
    "env_render (env_ok metadata1) = Resolved ()"
    by (simp_all add: env_ok_def)
  have f: "\<not> engine_succeeds env_paint_fails"
    by (simp add: engine_succeeds_def env_paint_fails_def)
  have pg: "fmul (page_height page0) (Fin (3 / 2)) = Fin 900"
    "fmul (page_width page0) (Fin (3 / 2)) = Fin 600"
    by (simp_all add: page0_def)
  from render_steps [of mounted_doc1 canvas0 _ "env_ok metadata1" page0 "''https://x/doc1.pdf''"]
    render_steps [of mounted_doc1 canvas0 _ env_paint_fails page0 "''https://x/doc1.pdf''"]
    c e f pg
  show ?thesis by simp
qed

end
